theory Spec2Isabelle
  imports Complex_Main "HOL-Library.Word"
begin

section \<open>JavaScript values as the adapter layer sees them\<close>

text \<open>
  A JavaScript string is a sequence of UTF-16 code units. String literals of the source
  are ASCII and are written \<open>js ''...''\<close>.
\<close>

type_synonym jsstring = "16 word list"

definition js :: "string \<Rightarrow> jsstring" where
  "js s = map of_char s"

text \<open>
  \<open>String.prototype.trim\<close> removes the code units of the ECMAScript productions
  WhiteSpace (TAB, VT, FF, SP, NBSP, ZWNBSP and the category Zs) and LineTerminator
  (LF, CR, LS, PS) from both ends.
\<close>

definition is_white_space :: "16 word \<Rightarrow> bool" where
  "is_white_space c \<longleftrightarrow>
     c = 0x0009 \<or> c = 0x000A \<or> c = 0x000B \<or> c = 0x000C \<or> c = 0x000D \<or> c = 0x0020 \<or>
     c = 0x00A0 \<or> c = 0x1680 \<or> (0x2000 \<le> c \<and> c \<le> 0x200A) \<or> c = 0x2028 \<or>
     c = 0x2029 \<or> c = 0x202F \<or> c = 0x205F \<or> c = 0x3000 \<or> c = 0xFEFF"

definition trim :: "jsstring \<Rightarrow> jsstring" where
  "trim s = rev (dropWhile is_white_space (rev (dropWhile is_white_space s)))"

text \<open>
  The values \<open>response.json()\<close> can produce, together with \<open>undefined\<close>. A number is
  kept as the rational value of its literal; an object as the list of its own
  properties, looked up with \<open>map_of\<close>.
\<close>

datatype jsvalue =
    JUndefined
  | JNull
  | JBool bool
  | JNum rat
  | JStr jsstring
  | JArr "jsvalue list"
  | JObj "(jsstring \<times> jsvalue) list"

text \<open>
  What a \<open>throw\<close> (or a rejected promise) carries: an instance of \<open>Error\<close> with its
  message, or any other value.
\<close>

datatype thrown = ErrorObject jsstring | NonError

definition and_then :: "thrown + 'a \<Rightarrow> ('a \<Rightarrow> thrown + 'b) \<Rightarrow> thrown + 'b" where
  "and_then r f = (case r of Inl e \<Rightarrow> Inl e | Inr x \<Rightarrow> f x)"

section \<open>The platform: network and engine\<close>

text \<open>
  The two arguments of \<open>fetch\<close>: the URL and the options, \<open>http_method\<close> being the
  option \<open>method\<close>. \<open>body\<close> is the value handed to \<open>JSON.stringify\<close>, \<open>None\<close> when
  the call has no body.
\<close>

record request =
  url :: jsstring
  http_method :: jsstring
  headers :: "(jsstring \<times> jsstring) list"
  body :: "jsvalue option"

text \<open>
  What the code reads of a \<open>Response\<close>: its \<open>ok\<close> flag and the outcome of
  \<open>await response.json()\<close>, which throws when the body does not parse.
\<close>

record response =
  ok :: bool
  json :: "thrown + jsvalue"

text \<open>
  Everything the two functions take from outside: \<open>fetch\<close> (which may throw instead of
  answering), the engine's \<open>ToBoolean\<close> and \<open>ToString\<close> on numbers, and the
  engine's wording of the two \<open>TypeError\<close>s the code can provoke: reading a property
  of \<open>undefined\<close> or \<open>null\<close>, and converting an object to a string.
\<close>

record platform =
  fetch :: "request \<Rightarrow> thrown + response"
  number_truthy :: "rat \<Rightarrow> bool"
  number_to_string :: "rat \<Rightarrow> jsstring"
  read_error :: "jsvalue \<Rightarrow> jsstring \<Rightarrow> jsstring"
  convert_error :: jsstring

text \<open>\<open>ToBoolean\<close>, as \<open>||\<close> applies it to its left operand.\<close>

fun to_boolean :: "platform \<Rightarrow> jsvalue \<Rightarrow> bool" where
  "to_boolean w JUndefined = False"
| "to_boolean w JNull = False"
| "to_boolean w (JBool b) = b"
| "to_boolean w (JNum q) = number_truthy w q"
| "to_boolean w (JStr s) = (s \<noteq> [])"
| "to_boolean w (JArr xs) = True"
| "to_boolean w (JObj ps) = True"

text \<open>
  \<open>ToString\<close>, as a template literal applies it. An array is joined with commas,
  \<open>undefined\<close> and \<open>null\<close> elements giving the empty string. A plain object gives
  \<open>[object Object]\<close> through \<open>Object.prototype.toString\<close>, unless an own property
  \<open>toString\<close> (never callable in parsed JSON) hides that method: then neither
  \<open>toString\<close> nor \<open>valueOf\<close> yields a primitive and the conversion throws.
\<close>

fun to_string :: "platform \<Rightarrow> jsvalue \<Rightarrow> thrown + jsstring"
  and join :: "platform \<Rightarrow> jsvalue list \<Rightarrow> thrown + jsstring" where
  "to_string w JUndefined = Inr (js ''undefined'')"
| "to_string w JNull = Inr (js ''null'')"
| "to_string w (JBool b) = Inr (if b then js ''true'' else js ''false'')"
| "to_string w (JNum q) = Inr (number_to_string w q)"
| "to_string w (JStr s) = Inr s"
| "to_string w (JArr xs) = join w xs"
| "to_string w (JObj ps) =
     (if map_of ps (js ''toString'') \<noteq> None then Inl (ErrorObject (convert_error w))
      else Inr (js ''[object Object]''))"
| "join w [] = Inr []"
| "join w (x # xs) =
     and_then (if x = JUndefined \<or> x = JNull then Inr [] else to_string w x)
       (\<lambda>s. if xs = [] then Inr s
            else and_then (join w xs) (\<lambda>t. Inr (s @ js '','' @ t)))"

text \<open>
  \<open>v.k\<close> for the property names the source reads (\<open>error\<close>, \<open>message\<close>, \<open>choices\<close>,
  \<open>content\<close>, \<open>text\<close>, \<open>candidates\<close>, \<open>parts\<close>): none of them is on a built-in
  prototype, so only an object's own property can answer.
\<close>

definition get_member :: "platform \<Rightarrow> jsvalue \<Rightarrow> jsstring \<Rightarrow> thrown + jsvalue" where
  "get_member w v k =
     (case v of
        JUndefined \<Rightarrow> Inl (ErrorObject (read_error w v k))
      | JNull \<Rightarrow> Inl (ErrorObject (read_error w v k))
      | JObj ps \<Rightarrow> Inr (case map_of ps k of None \<Rightarrow> JUndefined | Some x \<Rightarrow> x)
      | _ \<Rightarrow> Inr JUndefined)"

text \<open>\<open>v?.k\<close>\<close>

definition optional_member :: "platform \<Rightarrow> jsvalue \<Rightarrow> jsstring \<Rightarrow> thrown + jsvalue" where
  "optional_member w v k =
     (if v = JUndefined \<or> v = JNull then Inr JUndefined else get_member w v k)"

text \<open>\<open>v[0]\<close>: the first element of an array, the first code unit of a string.\<close>

definition get_first :: "platform \<Rightarrow> jsvalue \<Rightarrow> thrown + jsvalue" where
  "get_first w v =
     (case v of
        JUndefined \<Rightarrow> Inl (ErrorObject (read_error w v (js ''0'')))
      | JNull \<Rightarrow> Inl (ErrorObject (read_error w v (js ''0'')))
      | JArr xs \<Rightarrow> Inr (case xs of [] \<Rightarrow> JUndefined | x # _ \<Rightarrow> x)
      | JStr s \<Rightarrow> Inr (case s of [] \<Rightarrow> JUndefined | c # _ \<Rightarrow> JStr [c])
      | JObj ps \<Rightarrow> Inr (case map_of ps (js ''0'') of None \<Rightarrow> JUndefined | Some x \<Rightarrow> x)
      | _ \<Rightarrow> Inr JUndefined)"

section \<open>The adapter layer (src/lib/api.ts)\<close>

text \<open>
  \<open>interface ApiResponse\<close>: an optional field the returned object literal does not
  write is \<open>None\<close>.
\<close>

record ApiResponse =
  success :: bool
  message :: "jsstring option"
  data :: "jsvalue option"

text \<open>
  The expression \<open>error.error?.message || 'Unknown error'\<close> inside a template literal,
  as all six non-2xx branches write it; \<open>error\<close> is the parsed error body.
\<close>

definition error_detail :: "platform \<Rightarrow> jsvalue \<Rightarrow> thrown + jsstring" where
  "error_detail w error =
     and_then (get_member w error (js ''error'')) (\<lambda>e.
     and_then (optional_member w e (js ''message'')) (\<lambda>m.
     to_string w (if to_boolean w m then m else JStr (js ''Unknown error''))))"

text \<open>
  The expression \<open>error instanceof Error ? error.message : 'Unknown error'\<close> of the two
  \<open>catch\<close> blocks.
\<close>

definition thrown_detail :: "thrown \<Rightarrow> jsstring" where
  "thrown_detail error = (case error of ErrorObject m \<Rightarrow> m | NonError \<Rightarrow> js ''Unknown error'')"

text \<open>
  The \<open>try\<close> block of \<open>validateApiKey\<close> (lines 16 to 83): its outcome, a returned
  \<open>ApiResponse\<close> or a thrown value, and the requests it handed to \<open>fetch\<close>.
  \<open>provider\<close> is any value, since the code has a branch for a value outside its type.
\<close>

definition validateApiKey_try ::
  "platform \<Rightarrow> jsvalue \<Rightarrow> jsstring \<Rightarrow> (thrown + ApiResponse) \<times> request list" where
  "validateApiKey_try w provider apiKey =
     (if trim apiKey = [] then
        (Inr \<lparr>success = False, message = Some (js ''API key cannot be empty''), data = None\<rparr>, [])
      else if provider = JStr (js ''openai'') then
        (let req = \<lparr>url = js ''https://api.openai.com/v1/models'',
                    http_method = js ''GET'',
                    headers = [(js ''Authorization'', js ''Bearer '' @ apiKey),
                               (js ''Content-Type'', js ''application/json'')],
                    body = None\<rparr>
         in (and_then (fetch w req) (\<lambda>response.
               if ok response then
                 Inr \<lparr>success = True, message = Some (js ''OpenAI API key is valid''), data = None\<rparr>
               else
                 and_then (json response) (\<lambda>error.
                 and_then (error_detail w error) (\<lambda>d.
                 Inr \<lparr>success = False,
                      message = Some (js ''Invalid OpenAI API key: '' @ d), data = None\<rparr>))),
             [req]))
      else if provider = JStr (js ''anthropic'') then
        (let req = \<lparr>url = js ''https://api.anthropic.com/v1/messages'',
                    http_method = js ''POST'',
                    headers = [(js ''x-api-key'', apiKey),
                               (js ''anthropic-version'', js ''2023-06-01''),
                               (js ''Content-Type'', js ''application/json'')],
                    body = Some (JObj
                      [(js ''model'', JStr (js ''claude-3-5-haiku-20241022'')),
                       (js ''max_tokens'', JNum 1),
                       (js ''messages'', JArr [JObj [(js ''role'', JStr (js ''user'')),
                                                     (js ''content'', JStr (js ''Hello''))]])])\<rparr>
         in (and_then (fetch w req) (\<lambda>response.
               if ok response then
                 Inr \<lparr>success = True, message = Some (js ''Anthropic API key is valid''), data = None\<rparr>
               else
                 and_then (json response) (\<lambda>error.
                 and_then (error_detail w error) (\<lambda>d.
                 Inr \<lparr>success = False,
                      message = Some (js ''Invalid Anthropic API key: '' @ d), data = None\<rparr>))),
             [req]))
      else if provider = JStr (js ''gemini'') then
        (let req = \<lparr>url = js ''https://generativelanguage.googleapis.com/v1beta/models?key='' @ apiKey,
                    http_method = js ''GET'',
                    headers = [(js ''Content-Type'', js ''application/json'')],
                    body = None\<rparr>
         in (and_then (fetch w req) (\<lambda>response.
               if ok response then
                 Inr \<lparr>success = True, message = Some (js ''Gemini API key is valid''), data = None\<rparr>
               else
                 and_then (json response) (\<lambda>error.
                 and_then (error_detail w error) (\<lambda>d.
                 Inr \<lparr>success = False,
                      message = Some (js ''Invalid Gemini API key: '' @ d), data = None\<rparr>))),
             [req]))
      else
        (Inr \<lparr>success = False, message = Some (js ''Unknown provider''), data = None\<rparr>, []))"

text \<open>\<open>validateApiKey\<close>: the \<open>try\<close> block under its \<open>catch\<close> (lines 84 to 90).\<close>

definition validateApiKey :: "platform \<Rightarrow> jsvalue \<Rightarrow> jsstring \<Rightarrow> ApiResponse \<times> request list" where
  "validateApiKey w provider apiKey =
     (case validateApiKey_try w provider apiKey of
        (Inr result, calls) \<Rightarrow> (result, calls)
      | (Inl error, calls) \<Rightarrow>
          (\<lparr>success = False,
            message = Some (js ''Error validating API key: '' @ thrown_detail error),
            data = None\<rparr>, calls))"

text \<open>The \<open>try\<close> block of \<open>sendPromptToLLM\<close> (lines 101 to 204).\<close>

definition sendPromptToLLM_try ::
  "platform \<Rightarrow> jsvalue \<Rightarrow> jsstring \<Rightarrow> jsstring \<Rightarrow> jsstring \<Rightarrow> (thrown + ApiResponse) \<times> request list" where
  "sendPromptToLLM_try w provider model apiKey prompt =
     (if trim apiKey = [] then
        (Inr \<lparr>success = False, message = Some (js ''API key is required''), data = None\<rparr>, [])
      else if trim prompt = [] then
        (Inr \<lparr>success = False, message = Some (js ''Prompt cannot be empty''), data = None\<rparr>, [])
      else if provider = JStr (js ''openai'') then
        (let req = \<lparr>url = js ''https://api.openai.com/v1/chat/completions'',
                    http_method = js ''POST'',
                    headers = [(js ''Authorization'', js ''Bearer '' @ apiKey),
                               (js ''Content-Type'', js ''application/json'')],
                    body = Some (JObj
                      [(js ''model'', JStr model),
                       (js ''messages'', JArr [JObj [(js ''role'', JStr (js ''user'')),
                                                     (js ''content'', JStr prompt)]]),
                       (js ''temperature'', JNum (7 / 10))])\<rparr>
         in (and_then (fetch w req) (\<lambda>response.
               if ok response then
                 and_then (json response) (\<lambda>data.
                 and_then (get_member w data (js ''choices'')) (\<lambda>choices.
                 and_then (get_first w choices) (\<lambda>choice.
                 and_then (get_member w choice (js ''message'')) (\<lambda>msg.
                 and_then (get_member w msg (js ''content'')) (\<lambda>content.
                 Inr \<lparr>success = True, message = None, data = Some content\<rparr>)))))
               else
                 and_then (json response) (\<lambda>error.
                 and_then (error_detail w error) (\<lambda>d.
                 Inr \<lparr>success = False,
                      message = Some (js ''OpenAI API error: '' @ d), data = None\<rparr>))),
             [req]))
      else if provider = JStr (js ''anthropic'') then
        (let req = \<lparr>url = js ''https://api.anthropic.com/v1/messages'',
                    http_method = js ''POST'',
                    headers = [(js ''x-api-key'', apiKey),
                               (js ''anthropic-version'', js ''2023-06-01''),
                               (js ''Content-Type'', js ''application/json'')],
                    body = Some (JObj
                      [(js ''model'', JStr model),
                       (js ''max_tokens'', JNum 1000),
                       (js ''messages'', JArr [JObj [(js ''role'', JStr (js ''user'')),
                                                     (js ''content'', JStr prompt)]])])\<rparr>
         in (and_then (fetch w req) (\<lambda>response.
               if ok response then
                 and_then (json response) (\<lambda>data.
                 and_then (get_member w data (js ''content'')) (\<lambda>content.
                 and_then (get_first w content) (\<lambda>block.
                 and_then (get_member w block (js ''text'')) (\<lambda>txt.
                 Inr \<lparr>success = True, message = None, data = Some txt\<rparr>))))
               else
                 and_then (json response) (\<lambda>error.
                 and_then (error_detail w error) (\<lambda>d.
                 Inr \<lparr>success = False,
                      message = Some (js ''Anthropic API error: '' @ d), data = None\<rparr>))),
             [req]))
      else if provider = JStr (js ''gemini'') then
        (let req = \<lparr>url = js ''https://generativelanguage.googleapis.com/v1beta/models/'' @ model
                          @ js '':generateContent?key='' @ apiKey,
                    http_method = js ''POST'',
                    headers = [(js ''Content-Type'', js ''application/json'')],
                    body = Some (JObj
                      [(js ''contents'', JArr [JObj [(js ''parts'', JArr [JObj [(js ''text'', JStr prompt)]])]]),
                       (js ''generationConfig'', JObj [(js ''temperature'', JNum (7 / 10)),
                                                       (js ''maxOutputTokens'', JNum 1000)])])\<rparr>
         in (and_then (fetch w req) (\<lambda>response.
               if ok response then
                 and_then (json response) (\<lambda>data.
                 and_then (get_member w data (js ''candidates'')) (\<lambda>candidates.
                 and_then (get_first w candidates) (\<lambda>candidate.
                 and_then (get_member w candidate (js ''content'')) (\<lambda>content.
                 and_then (get_member w content (js ''parts'')) (\<lambda>parts.
                 and_then (get_first w parts) (\<lambda>part.
                 and_then (get_member w part (js ''text'')) (\<lambda>txt.
                 Inr \<lparr>success = True, message = None, data = Some txt\<rparr>)))))))
               else
                 and_then (json response) (\<lambda>error.
                 and_then (error_detail w error) (\<lambda>d.
                 Inr \<lparr>success = False,
                      message = Some (js ''Gemini API error: '' @ d), data = None\<rparr>))),
             [req]))
      else
        (Inr \<lparr>success = False, message = Some (js ''Unknown provider''), data = None\<rparr>, []))"

text \<open>\<open>sendPromptToLLM\<close>: the \<open>try\<close> block under its \<open>catch\<close> (lines 205 to 211).\<close>

definition sendPromptToLLM ::
  "platform \<Rightarrow> jsvalue \<Rightarrow> jsstring \<Rightarrow> jsstring \<Rightarrow> jsstring \<Rightarrow> ApiResponse \<times> request list" where
  "sendPromptToLLM w provider model apiKey prompt =
     (case sendPromptToLLM_try w provider model apiKey prompt of
        (Inr result, calls) \<Rightarrow> (result, calls)
      | (Inl error, calls) \<Rightarrow>
          (\<lparr>success = False,
            message = Some (js ''Error sending prompt: '' @ thrown_detail error),
            data = None\<rparr>, calls))"

section \<open>A test platform\<close>

text \<open>
  The platform of the examples: a stubbed \<open>fetch\<close> that gives every request the same
  outcome, on an engine with V8's wording of the two \<open>TypeError\<close>s. The examples hold
  no number, so its answers for numbers are never read.
\<close>

definition stub_platform :: "thrown + response \<Rightarrow> platform" where
  "stub_platform outcome =
     \<lparr>fetch = (\<lambda>req. outcome),
      number_truthy = (\<lambda>q. q \<noteq> 0),
      number_to_string = (\<lambda>q. js ''0''),
      read_error = (\<lambda>v k. js ''Cannot read properties of ''
                      @ (if v = JNull then js ''null'' else js ''undefined'')
                      @ js '' (reading '' @ [0x27] @ k @ [0x27] @ js '')''),
      convert_error = js ''Cannot convert object to primitive value''\<rparr>"

section \<open>Notions for the statements\<close>

text \<open>
  \<open>whitespace_only\<close> is the specification's "empty or whitespace-only"; \<open>failure m\<close> is
  the result \<open>{success: false, message: m}\<close>. The six requests of the source are named
  for the statements below; \<open>caught\<close>, \<open>error_reply\<close>, \<open>validation_reply\<close> and
  \<open>generation_reply\<close> name what the six branches have in common, and
  \<open>openai_text\<close>, \<open>anthropic_text\<close> and \<open>gemini_text\<close> the three property chains
  \<open>data.choices[0].message.content\<close>, \<open>data.content[0].text\<close> and
  \<open>data.candidates[0].content.parts[0].text\<close>. The lemmas \<open>validateApiKey_form\<close> and
  \<open>sendPromptToLLM_form\<close> prove that the functions above are equal to these forms.
\<close>

definition whitespace_only :: "jsstring \<Rightarrow> bool" where
  "whitespace_only s = list_all is_white_space s"

abbreviation failure :: "jsstring \<Rightarrow> ApiResponse" where
  "failure m \<equiv> \<lparr>success = False, message = Some m, data = None\<rparr>"

abbreviation openai_models_request :: "jsstring \<Rightarrow> request" where
  "openai_models_request apiKey \<equiv>
     \<lparr>url = js ''https://api.openai.com/v1/models'',
      http_method = js ''GET'',
      headers = [(js ''Authorization'', js ''Bearer '' @ apiKey),
                 (js ''Content-Type'', js ''application/json'')],
      body = None\<rparr>"

abbreviation anthropic_probe_request :: "jsstring \<Rightarrow> request" where
  "anthropic_probe_request apiKey \<equiv>
     \<lparr>url = js ''https://api.anthropic.com/v1/messages'',
      http_method = js ''POST'',
      headers = [(js ''x-api-key'', apiKey),
                 (js ''anthropic-version'', js ''2023-06-01''),
                 (js ''Content-Type'', js ''application/json'')],
      body = Some (JObj
        [(js ''model'', JStr (js ''claude-3-5-haiku-20241022'')),
         (js ''max_tokens'', JNum 1),
         (js ''messages'', JArr [JObj [(js ''role'', JStr (js ''user'')),
                                       (js ''content'', JStr (js ''Hello''))]])])\<rparr>"

abbreviation gemini_models_request :: "jsstring \<Rightarrow> request" where
  "gemini_models_request apiKey \<equiv>
     \<lparr>url = js ''https://generativelanguage.googleapis.com/v1beta/models?key='' @ apiKey,
      http_method = js ''GET'',
      headers = [(js ''Content-Type'', js ''application/json'')],
      body = None\<rparr>"

abbreviation openai_chat_request :: "jsstring \<Rightarrow> jsstring \<Rightarrow> jsstring \<Rightarrow> request" where
  "openai_chat_request model apiKey prompt \<equiv>
     \<lparr>url = js ''https://api.openai.com/v1/chat/completions'',
      http_method = js ''POST'',
      headers = [(js ''Authorization'', js ''Bearer '' @ apiKey),
                 (js ''Content-Type'', js ''application/json'')],
      body = Some (JObj
        [(js ''model'', JStr model),
         (js ''messages'', JArr [JObj [(js ''role'', JStr (js ''user'')),
                                       (js ''content'', JStr prompt)]]),
         (js ''temperature'', JNum (7 / 10))])\<rparr>"

abbreviation anthropic_messages_request :: "jsstring \<Rightarrow> jsstring \<Rightarrow> jsstring \<Rightarrow> request" where
  "anthropic_messages_request model apiKey prompt \<equiv>
     \<lparr>url = js ''https://api.anthropic.com/v1/messages'',
      http_method = js ''POST'',
      headers = [(js ''x-api-key'', apiKey),
                 (js ''anthropic-version'', js ''2023-06-01''),
                 (js ''Content-Type'', js ''application/json'')],
      body = Some (JObj
        [(js ''model'', JStr model),
         (js ''max_tokens'', JNum 1000),
         (js ''messages'', JArr [JObj [(js ''role'', JStr (js ''user'')),
                                       (js ''content'', JStr prompt)]])])\<rparr>"

abbreviation gemini_generate_request :: "jsstring \<Rightarrow> jsstring \<Rightarrow> jsstring \<Rightarrow> request" where
  "gemini_generate_request model apiKey prompt \<equiv>
     \<lparr>url = js ''https://generativelanguage.googleapis.com/v1beta/models/'' @ model
            @ js '':generateContent?key='' @ apiKey,
      http_method = js ''POST'',
      headers = [(js ''Content-Type'', js ''application/json'')],
      body = Some (JObj
        [(js ''contents'', JArr [JObj [(js ''parts'', JArr [JObj [(js ''text'', JStr prompt)]])]]),
         (js ''generationConfig'', JObj [(js ''temperature'', JNum (7 / 10)),
                                         (js ''maxOutputTokens'', JNum 1000)])])\<rparr>"

definition caught :: "jsstring \<Rightarrow> thrown + ApiResponse \<Rightarrow> ApiResponse" where
  "caught prefix outcome =
     (case outcome of Inr result \<Rightarrow> result | Inl e \<Rightarrow> failure (prefix @ thrown_detail e))"

definition error_reply :: "platform \<Rightarrow> jsstring \<Rightarrow> response \<Rightarrow> thrown + ApiResponse" where
  "error_reply w label response =
     and_then (json response) (\<lambda>error.
     and_then (error_detail w error) (\<lambda>d. Inr (failure (label @ d))))"

definition validation_reply ::
  "platform \<Rightarrow> jsstring \<Rightarrow> jsstring \<Rightarrow> response \<Rightarrow> thrown + ApiResponse" where
  "validation_reply w valid label response =
     (if ok response then Inr \<lparr>success = True, message = Some valid, data = None\<rparr>
      else error_reply w label response)"

definition openai_text :: "platform \<Rightarrow> jsvalue \<Rightarrow> thrown + jsvalue" where
  "openai_text w v =
     and_then (get_member w v (js ''choices'')) (\<lambda>choices.
     and_then (get_first w choices) (\<lambda>choice.
     and_then (get_member w choice (js ''message'')) (\<lambda>msg.
     get_member w msg (js ''content''))))"

definition anthropic_text :: "platform \<Rightarrow> jsvalue \<Rightarrow> thrown + jsvalue" where
  "anthropic_text w v =
     and_then (get_member w v (js ''content'')) (\<lambda>content.
     and_then (get_first w content) (\<lambda>block.
     get_member w block (js ''text'')))"

definition gemini_text :: "platform \<Rightarrow> jsvalue \<Rightarrow> thrown + jsvalue" where
  "gemini_text w v =
     and_then (get_member w v (js ''candidates'')) (\<lambda>candidates.
     and_then (get_first w candidates) (\<lambda>candidate.
     and_then (get_member w candidate (js ''content'')) (\<lambda>content.
     and_then (get_member w content (js ''parts'')) (\<lambda>parts.
     and_then (get_first w parts) (\<lambda>part.
     get_member w part (js ''text''))))))"

definition generation_reply ::
  "platform \<Rightarrow> (jsvalue \<Rightarrow> thrown + jsvalue) \<Rightarrow> jsstring \<Rightarrow> response \<Rightarrow> thrown + ApiResponse" where
  "generation_reply w path label response =
     (if ok response then
        and_then (json response) (\<lambda>v.
        and_then (path v) (\<lambda>x. Inr \<lparr>success = True, message = None, data = Some x\<rparr>))
      else error_reply w label response)"

text \<open>
  The specification's "error.message field of the parsed JSON error body", read off the
  structure of the body; \<open>JUndefined\<close> when the body has no such field.
\<close>

definition error_message_field :: "jsvalue \<Rightarrow> jsvalue" where
  "error_message_field v =
     (case v of
        JObj ps \<Rightarrow>
          (case map_of ps (js ''error'') of
             Some (JObj qs) \<Rightarrow> (case map_of qs (js ''message'') of Some m \<Rightarrow> m | None \<Rightarrow> JUndefined)
           | _ \<Rightarrow> JUndefined)
      | _ \<Rightarrow> JUndefined)"

section \<open>Strings\<close>

text \<open>
  \<open>js\<close> is injective, so literals are compared as written; a string trims to the
  empty string exactly when it is whitespace only.
\<close>

lemma unat_of_char16: "unat (of_char x :: 16 word) = of_char x"
proof -
  have "(of_char x :: nat) < 256" by (rule nat_of_char_less_256)
  then have "(of_char x :: nat) < 2 ^ 16" by (rule less_trans) simp
  then have "unat (of_nat (of_char x) :: 16 word) = of_char x"
    by (simp add: unat_of_nat)
  then show ?thesis by (simp add: of_nat_of_char)
qed

lemma js_eq_iff [simp]: "js a = js b \<longleftrightarrow> a = b"
proof -
  have "inj (of_char :: char \<Rightarrow> 16 word)"
  proof (rule injI)
    fix x y :: char
    assume h: "(of_char x :: 16 word) = of_char y"
    then have "unat (of_char x :: 16 word) = unat (of_char y :: 16 word)" by simp
    then have "(of_char x :: nat) = of_char y" by (simp only: unat_of_char16)
    then show "x = y" by simp
  qed
  then show ?thesis unfolding js_def by (simp add: inj_map_eq_map)
qed

lemma js_Nil_iff [simp]: "js a = [] \<longleftrightarrow> a = []"
  by (simp add: js_def)

lemma js_append: "js a @ js b = js (a @ b)"
  by (simp add: js_def)

lemma js_append_more: "js a @ js b @ r = js (a @ b) @ r"
  by (simp add: js_def)

lemma trim_empty_iff: "trim s = [] \<longleftrightarrow> (\<forall>c\<in>set s. is_white_space c)"
proof
  assume "trim s = []"
  then have all: "\<forall>x\<in>set (dropWhile is_white_space s). is_white_space x"
    by (simp add: trim_def dropWhile_eq_Nil_conv)
  have "dropWhile is_white_space s = []"
  proof (rule ccontr)
    assume ne: "dropWhile is_white_space s \<noteq> []"
    then have "\<not> is_white_space (hd (dropWhile is_white_space s))"
      by (rule hd_dropWhile)
    moreover from ne have "hd (dropWhile is_white_space s) \<in> set (dropWhile is_white_space s)"
      by simp
    ultimately show False using all by blast
  qed
  then show "\<forall>c\<in>set s. is_white_space c"
    by (simp add: dropWhile_eq_Nil_conv)
next
  assume "\<forall>c\<in>set s. is_white_space c"
  then have "dropWhile is_white_space s = []"
    by (simp add: dropWhile_eq_Nil_conv)
  then show "trim s = []" unfolding trim_def by (simp only: rev.simps dropWhile.simps)
qed

lemma trim_whitespace_only: "trim s = [] \<longleftrightarrow> whitespace_only s"
  by (simp add: trim_empty_iff whitespace_only_def list_all_iff)

section \<open>The two functions in a common form\<close>

text \<open>
  The \<open>catch\<close> applied to the outcome of the \<open>try\<close> block, and each branch as one
  \<open>fetch\<close> followed by the reply to its response.
\<close>

lemma and_then_simps [simp]:
  "and_then (Inl e) f = Inl e"
  "and_then (Inr x) f = f x"
  by (simp_all add: and_then_def)

lemma and_then_assoc:
  "and_then (and_then m f) g = and_then m (\<lambda>x. and_then (f x) g)"
  by (cases m) simp_all

lemma caught_simps [simp]:
  "caught prefix (Inl e) = failure (prefix @ thrown_detail e)"
  "caught prefix (Inr r) = r"
  by (simp_all add: caught_def)

lemma validateApiKey_caught:
  "validateApiKey w provider apiKey =
     (caught (js ''Error validating API key: '') (fst (validateApiKey_try w provider apiKey)),
      snd (validateApiKey_try w provider apiKey))"
  by (cases "validateApiKey_try w provider apiKey"; cases "fst (validateApiKey_try w provider apiKey)")
     (simp_all add: validateApiKey_def)

lemma sendPromptToLLM_caught:
  "sendPromptToLLM w provider model apiKey prompt =
     (caught (js ''Error sending prompt: '') (fst (sendPromptToLLM_try w provider model apiKey prompt)),
      snd (sendPromptToLLM_try w provider model apiKey prompt))"
  by (cases "sendPromptToLLM_try w provider model apiKey prompt";
      cases "fst (sendPromptToLLM_try w provider model apiKey prompt)")
     (simp_all add: sendPromptToLLM_def)

lemma validateApiKey_try_form:
  "validateApiKey_try w provider apiKey =
     (if whitespace_only apiKey then (Inr (failure (js ''API key cannot be empty'')), [])
      else if provider = JStr (js ''openai'') then
        (and_then (fetch w (openai_models_request apiKey))
           (validation_reply w (js ''OpenAI API key is valid'') (js ''Invalid OpenAI API key: '')),
         [openai_models_request apiKey])
      else if provider = JStr (js ''anthropic'') then
        (and_then (fetch w (anthropic_probe_request apiKey))
           (validation_reply w (js ''Anthropic API key is valid'') (js ''Invalid Anthropic API key: '')),
         [anthropic_probe_request apiKey])
      else if provider = JStr (js ''gemini'') then
        (and_then (fetch w (gemini_models_request apiKey))
           (validation_reply w (js ''Gemini API key is valid'') (js ''Invalid Gemini API key: '')),
         [gemini_models_request apiKey])
      else (Inr (failure (js ''Unknown provider'')), []))"
  unfolding validateApiKey_try_def Let_def trim_whitespace_only validation_reply_def error_reply_def
  by (rule refl)

lemma sendPromptToLLM_try_form:
  "sendPromptToLLM_try w provider model apiKey prompt =
     (if whitespace_only apiKey then (Inr (failure (js ''API key is required'')), [])
      else if whitespace_only prompt then (Inr (failure (js ''Prompt cannot be empty'')), [])
      else if provider = JStr (js ''openai'') then
        (and_then (fetch w (openai_chat_request model apiKey prompt))
           (generation_reply w (openai_text w) (js ''OpenAI API error: '')),
         [openai_chat_request model apiKey prompt])
      else if provider = JStr (js ''anthropic'') then
        (and_then (fetch w (anthropic_messages_request model apiKey prompt))
           (generation_reply w (anthropic_text w) (js ''Anthropic API error: '')),
         [anthropic_messages_request model apiKey prompt])
      else if provider = JStr (js ''gemini'') then
        (and_then (fetch w (gemini_generate_request model apiKey prompt))
           (generation_reply w (gemini_text w) (js ''Gemini API error: '')),
         [gemini_generate_request model apiKey prompt])
      else (Inr (failure (js ''Unknown provider'')), []))"
  unfolding sendPromptToLLM_try_def Let_def trim_whitespace_only generation_reply_def error_reply_def
    openai_text_def anthropic_text_def gemini_text_def and_then_assoc
  by (rule refl)

lemma validateApiKey_form:
  "validateApiKey w provider apiKey =
     (if whitespace_only apiKey then (failure (js ''API key cannot be empty''), [])
      else if provider = JStr (js ''openai'') then
        (caught (js ''Error validating API key: '')
           (and_then (fetch w (openai_models_request apiKey))
              (validation_reply w (js ''OpenAI API key is valid'') (js ''Invalid OpenAI API key: ''))),
         [openai_models_request apiKey])
      else if provider = JStr (js ''anthropic'') then
        (caught (js ''Error validating API key: '')
           (and_then (fetch w (anthropic_probe_request apiKey))
              (validation_reply w (js ''Anthropic API key is valid'') (js ''Invalid Anthropic API key: ''))),
         [anthropic_probe_request apiKey])
      else if provider = JStr (js ''gemini'') then
        (caught (js ''Error validating API key: '')
           (and_then (fetch w (gemini_models_request apiKey))
              (validation_reply w (js ''Gemini API key is valid'') (js ''Invalid Gemini API key: ''))),
         [gemini_models_request apiKey])
      else (failure (js ''Unknown provider''), []))"
  by (simp add: validateApiKey_caught validateApiKey_try_form)

lemma sendPromptToLLM_form:
  "sendPromptToLLM w provider model apiKey prompt =
     (if whitespace_only apiKey then (failure (js ''API key is required''), [])
      else if whitespace_only prompt then (failure (js ''Prompt cannot be empty''), [])
      else if provider = JStr (js ''openai'') then
        (caught (js ''Error sending prompt: '')
           (and_then (fetch w (openai_chat_request model apiKey prompt))
              (generation_reply w (openai_text w) (js ''OpenAI API error: ''))),
         [openai_chat_request model apiKey prompt])
      else if provider = JStr (js ''anthropic'') then
        (caught (js ''Error sending prompt: '')
           (and_then (fetch w (anthropic_messages_request model apiKey prompt))
              (generation_reply w (anthropic_text w) (js ''Anthropic API error: ''))),
         [anthropic_messages_request model apiKey prompt])
      else if provider = JStr (js ''gemini'') then
        (caught (js ''Error sending prompt: '')
           (and_then (fetch w (gemini_generate_request model apiKey prompt))
              (generation_reply w (gemini_text w) (js ''Gemini API error: ''))),
         [gemini_generate_request model apiKey prompt])
      else (failure (js ''Unknown provider''), []))"
  by (simp add: sendPromptToLLM_caught sendPromptToLLM_try_form)

lemma validateApiKey_anthropic:
  assumes "\<not> whitespace_only apiKey"
  shows "validateApiKey w (JStr (js ''anthropic'')) apiKey =
     (caught (js ''Error validating API key: '')
        (and_then (fetch w (anthropic_probe_request apiKey))
           (validation_reply w (js ''Anthropic API key is valid'') (js ''Invalid Anthropic API key: ''))),
      [anthropic_probe_request apiKey])"
  using assms by (simp add: validateApiKey_form)

lemma sendPromptToLLM_openai:
  assumes "\<not> whitespace_only apiKey" and "\<not> whitespace_only prompt"
  shows "sendPromptToLLM w (JStr (js ''openai'')) model apiKey prompt =
     (caught (js ''Error sending prompt: '')
        (and_then (fetch w (openai_chat_request model apiKey prompt))
           (generation_reply w (openai_text w) (js ''OpenAI API error: ''))),
      [openai_chat_request model apiKey prompt])"
  using assms by (simp add: sendPromptToLLM_form)

lemma sendPromptToLLM_gemini:
  assumes "\<not> whitespace_only apiKey" and "\<not> whitespace_only prompt"
  shows "sendPromptToLLM w (JStr (js ''gemini'')) model apiKey prompt =
     (caught (js ''Error sending prompt: '')
        (and_then (fetch w (gemini_generate_request model apiKey prompt))
           (generation_reply w (gemini_text w) (js ''Gemini API error: ''))),
      [gemini_generate_request model apiKey prompt])"
  using assms by (simp add: sendPromptToLLM_form)

lemma validateApiKey_one_call:
  assumes "snd (validateApiKey w provider apiKey) = [req]"
  shows "\<exists>valid label. fst (validateApiKey w provider apiKey) =
           caught (js ''Error validating API key: '')
             (and_then (fetch w req) (validation_reply w valid label))"
  using assms by (auto simp add: validateApiKey_form split: if_splits)

lemma sendPromptToLLM_one_call:
  assumes "snd (sendPromptToLLM w provider model apiKey prompt) = [req]"
  shows "\<exists>path label. fst (sendPromptToLLM w provider model apiKey prompt) =
           caught (js ''Error sending prompt: '')
             (and_then (fetch w req) (generation_reply w path label))"
  using assms by (auto simp add: sendPromptToLLM_form split: if_splits)

lemma error_reply_simps:
  "json resp = Inl e \<Longrightarrow> error_reply w label resp = Inl e"
  "json resp = Inr v \<Longrightarrow> error_detail w v = Inl e \<Longrightarrow> error_reply w label resp = Inl e"
  "json resp = Inr v \<Longrightarrow> error_detail w v = Inr d \<Longrightarrow> error_reply w label resp = Inr (failure (label @ d))"
  by (simp_all add: error_reply_def)

lemma validation_reply_simps:
  "ok resp \<Longrightarrow> validation_reply w valid label resp = Inr \<lparr>success = True, message = Some valid, data = None\<rparr>"
  "\<not> ok resp \<Longrightarrow> validation_reply w valid label resp = error_reply w label resp"
  by (simp_all add: validation_reply_def)

lemma generation_reply_simps:
  "ok resp \<Longrightarrow> json resp = Inl e \<Longrightarrow> generation_reply w path label resp = Inl e"
  "ok resp \<Longrightarrow> json resp = Inr v \<Longrightarrow> path v = Inl e \<Longrightarrow> generation_reply w path label resp = Inl e"
  "ok resp \<Longrightarrow> json resp = Inr v \<Longrightarrow> path v = Inr x \<Longrightarrow>
     generation_reply w path label resp = Inr \<lparr>success = True, message = None, data = Some x\<rparr>"
  "\<not> ok resp \<Longrightarrow> generation_reply w path label resp = error_reply w label resp"
  by (simp_all add: generation_reply_def)

lemma caught_generation_reply:
  assumes "r = caught prefix (and_then (fetch w req) (generation_reply w path label))"
    and "fetch w req = Inr resp"
  shows "ok resp \<Longrightarrow> json resp = Inr v \<Longrightarrow> path v = Inr x \<Longrightarrow>
           r = \<lparr>success = True, message = None, data = Some x\<rparr>"
    and "\<not> ok resp \<Longrightarrow> json resp = Inr v \<Longrightarrow> error_detail w v = Inr d \<Longrightarrow>
           r = failure (label @ d)"
    and "json resp = Inl e \<or> (\<exists>v. json resp = Inr v
             \<and> (if ok resp then path v = Inl e else error_detail w v = Inl e)) \<Longrightarrow>
           r = failure (prefix @ thrown_detail e)"
proof -
  show "ok resp \<Longrightarrow> json resp = Inr v \<Longrightarrow> path v = Inr x \<Longrightarrow>
           r = \<lparr>success = True, message = None, data = Some x\<rparr>"
    using assms by (simp add: generation_reply_simps)
  show "\<not> ok resp \<Longrightarrow> json resp = Inr v \<Longrightarrow> error_detail w v = Inr d \<Longrightarrow>
           r = failure (label @ d)"
    using assms by (simp add: generation_reply_simps error_reply_simps)
  show "json resp = Inl e \<or> (\<exists>v. json resp = Inr v
             \<and> (if ok resp then path v = Inl e else error_detail w v = Inl e)) \<Longrightarrow>
           r = failure (prefix @ thrown_detail e)"
    using assms by (cases "ok resp") (auto simp add: generation_reply_simps error_reply_simps)
qed

lemma validateApiKey_rejected:
  assumes "(provider, label) \<in> {(JStr (js ''openai''), js ''OpenAI''),
             (JStr (js ''anthropic''), js ''Anthropic''), (JStr (js ''gemini''), js ''Gemini'')}"
    and "snd (validateApiKey w provider apiKey) = [req]"
    and "fetch w req = Inr resp" and "\<not> ok resp"
  shows "fst (validateApiKey w provider apiKey) =
           caught (js ''Error validating API key: '')
             (error_reply w (js ''Invalid '' @ label @ js '' API key: '') resp)"
proof -
  from assms(2) have nb: "\<not> whitespace_only apiKey"
    by (auto simp add: validateApiKey_form split: if_splits)
  from assms(1) consider
      "provider = JStr (js ''openai'')" "label = js ''OpenAI''"
    | "provider = JStr (js ''anthropic'')" "label = js ''Anthropic''"
    | "provider = JStr (js ''gemini'')" "label = js ''Gemini''"
    by auto
  then show ?thesis
  proof cases
    case 1
    with nb assms(2) have "req = openai_models_request apiKey"
      by (simp add: validateApiKey_form)
    with 1 nb assms(3,4) show ?thesis
      by (simp add: validateApiKey_form validation_reply_simps js_append)
  next
    case 2
    with nb assms(2) have "req = anthropic_probe_request apiKey"
      by (simp add: validateApiKey_form)
    with 2 nb assms(3,4) show ?thesis
      by (simp add: validateApiKey_form validation_reply_simps js_append)
  next
    case 3
    with nb assms(2) have "req = gemini_models_request apiKey"
      by (simp add: validateApiKey_form)
    with 3 nb assms(3,4) show ?thesis
      by (simp add: validateApiKey_form validation_reply_simps js_append)
  qed
qed

section \<open>Reading the error body\<close>

text \<open>
  For a body other than \<open>null\<close> and \<open>undefined\<close>, the detail is the string form of the
  body's \<open>error.message\<close> when that value is truthy, and \<open>Unknown error\<close> otherwise.
  Reading \<open>error\<close> of \<open>null\<close> throws.
\<close>

lemma error_detail_field:
  assumes "v \<noteq> JNull" and "v \<noteq> JUndefined"
  shows "error_detail w v =
           to_string w (if to_boolean w (error_message_field v) then error_message_field v
                        else JStr (js ''Unknown error''))"
proof (cases v)
  case (JObj ps)
  show ?thesis
  proof (cases "map_of ps (js ''error'')")
    case None
    with JObj show ?thesis
      by (simp add: error_detail_def get_member_def optional_member_def error_message_field_def)
  next
    case (Some a)
    with JObj show ?thesis
      by (cases a)
         (simp_all add: error_detail_def get_member_def optional_member_def
            error_message_field_def split: option.splits)
  qed
qed (use assms in \<open>simp_all add: error_detail_def get_member_def optional_member_def
       error_message_field_def\<close>)

lemma error_detail_null:
  "error_detail w JNull = Inl (ErrorObject (read_error w JNull (js ''error'')))"
  by (simp add: error_detail_def get_member_def)

lemma error_detail_message_string:
  "s \<noteq> [] \<Longrightarrow>
   error_detail w (JObj [(js ''error'', JObj [(js ''message'', JStr s)])]) = Inr s"
  by (simp add: error_detail_def get_member_def optional_member_def)

lemma gemini_text_example:
  "gemini_text w (JObj [(js ''candidates'', JArr [JObj [(js ''content'',
       JObj [(js ''parts'', JArr [JObj [(js ''text'', x)]])])]])]) = Inr x"
  by (simp add: gemini_text_def get_member_def get_first_def)

section \<open>The shape of the results\<close>

lemma validation_shape:
  assumes "prefix \<noteq> []" and "label \<noteq> []" and "valid \<noteq> []"
    and "r = caught prefix (and_then x (validation_reply w valid label))"
  shows "(\<exists>m. message r = Some m \<and> m \<noteq> []) \<and> data r = None"
proof (cases x)
  case (Inl e)
  with assms show ?thesis by simp
next
  case (Inr resp)
  show ?thesis
  proof (cases "ok resp")
    case True
    with Inr assms show ?thesis by (simp add: validation_reply_simps)
  next
    case False
    show ?thesis
    proof (cases "json resp")
      case (Inl e)
      with False Inr assms show ?thesis
        by (simp add: validation_reply_simps error_reply_simps)
    next
      case v: (Inr v)
      with False Inr assms show ?thesis
        by (cases "error_detail w v") (simp_all add: validation_reply_simps error_reply_simps)
    qed
  qed
qed

lemma generation_shape:
  assumes "prefix \<noteq> []" and "label \<noteq> []"
    and "r = caught prefix (and_then x (generation_reply w path label))"
  shows "(\<not> success r \<longrightarrow> (\<exists>m. message r = Some m \<and> m \<noteq> []) \<and> data r = None)
       \<and> (success r \<longrightarrow> (\<exists>v. data r = Some v) \<and> message r = None)"
proof (cases x)
  case (Inl e)
  with assms show ?thesis by simp
next
  case (Inr resp)
  show ?thesis
  proof (cases "json resp")
    case (Inl e)
    with Inr assms show ?thesis
      by (cases "ok resp") (simp_all add: generation_reply_simps error_reply_simps)
  next
    case v: (Inr v)
    show ?thesis
    proof (cases "ok resp")
      case True
      with v Inr assms show ?thesis
        by (cases "path v") (simp_all add: generation_reply_simps)
    next
      case False
      with v Inr assms show ?thesis
        by (cases "error_detail w v") (simp_all add: generation_reply_simps error_reply_simps)
    qed
  qed
qed

lemma validateApiKey_shape:
  "(\<exists>m. message (fst (validateApiKey w provider apiKey)) = Some m \<and> m \<noteq> [])
     \<and> data (fst (validateApiKey w provider apiKey)) = None"
proof -
  consider "whitespace_only apiKey"
    | "\<not> whitespace_only apiKey" "provider = JStr (js ''openai'')"
    | "\<not> whitespace_only apiKey" "provider = JStr (js ''anthropic'')"
    | "\<not> whitespace_only apiKey" "provider = JStr (js ''gemini'')"
    | "\<not> whitespace_only apiKey" "provider \<noteq> JStr (js ''openai'')"
        "provider \<noteq> JStr (js ''anthropic'')" "provider \<noteq> JStr (js ''gemini'')"
    by blast
  then show ?thesis
  proof cases
    case 1
    then show ?thesis by (simp add: validateApiKey_form)
  next
    case 2
    then show ?thesis
      by (intro validation_shape [where prefix = "js ''Error validating API key: ''"
            and label = "js ''Invalid OpenAI API key: ''" and valid = "js ''OpenAI API key is valid''"
            and x = "fetch w (openai_models_request apiKey)" and w = w])
         (simp_all add: validateApiKey_form)
  next
    case 3
    then show ?thesis
      by (intro validation_shape [where prefix = "js ''Error validating API key: ''"
            and label = "js ''Invalid Anthropic API key: ''" and valid = "js ''Anthropic API key is valid''"
            and x = "fetch w (anthropic_probe_request apiKey)" and w = w])
         (simp_all add: validateApiKey_form)
  next
    case 4
    then show ?thesis
      by (intro validation_shape [where prefix = "js ''Error validating API key: ''"
            and label = "js ''Invalid Gemini API key: ''" and valid = "js ''Gemini API key is valid''"
            and x = "fetch w (gemini_models_request apiKey)" and w = w])
         (simp_all add: validateApiKey_form)
  next
    case 5
    then show ?thesis by (simp add: validateApiKey_form)
  qed
qed

lemma sendPromptToLLM_shape:
  "(\<not> success (fst (sendPromptToLLM w provider model apiKey prompt)) \<longrightarrow>
      (\<exists>m. message (fst (sendPromptToLLM w provider model apiKey prompt)) = Some m \<and> m \<noteq> [])
      \<and> data (fst (sendPromptToLLM w provider model apiKey prompt)) = None)
   \<and> (success (fst (sendPromptToLLM w provider model apiKey prompt)) \<longrightarrow>
      (\<exists>v. data (fst (sendPromptToLLM w provider model apiKey prompt)) = Some v)
      \<and> message (fst (sendPromptToLLM w provider model apiKey prompt)) = None)"
proof -
  consider "whitespace_only apiKey \<or> whitespace_only prompt"
    | "\<not> whitespace_only apiKey" "\<not> whitespace_only prompt" "provider = JStr (js ''openai'')"
    | "\<not> whitespace_only apiKey" "\<not> whitespace_only prompt" "provider = JStr (js ''anthropic'')"
    | "\<not> whitespace_only apiKey" "\<not> whitespace_only prompt" "provider = JStr (js ''gemini'')"
    | "\<not> whitespace_only apiKey" "\<not> whitespace_only prompt" "provider \<noteq> JStr (js ''openai'')"
        "provider \<noteq> JStr (js ''anthropic'')" "provider \<noteq> JStr (js ''gemini'')"
    by blast
  then show ?thesis
  proof cases
    case 1
    then show ?thesis by (auto simp add: sendPromptToLLM_form)
  next
    case 2
    then show ?thesis
      by (intro generation_shape [where prefix = "js ''Error sending prompt: ''"
            and label = "js ''OpenAI API error: ''" and path = "openai_text w"
            and x = "fetch w (openai_chat_request model apiKey prompt)" and w = w])
         (simp_all add: sendPromptToLLM_form)
  next
    case 3
    then show ?thesis
      by (intro generation_shape [where prefix = "js ''Error sending prompt: ''"
            and label = "js ''Anthropic API error: ''" and path = "anthropic_text w"
            and x = "fetch w (anthropic_messages_request model apiKey prompt)" and w = w])
         (simp_all add: sendPromptToLLM_form)
  next
    case 4
    then show ?thesis
      by (intro generation_shape [where prefix = "js ''Error sending prompt: ''"
            and label = "js ''Gemini API error: ''" and path = "gemini_text w"
            and x = "fetch w (gemini_generate_request model apiKey prompt)" and w = w])
         (simp_all add: sendPromptToLLM_form)
  next
    case 5
    then show ?thesis by (simp add: sendPromptToLLM_form)
  qed
qed

lemma get_first_string: "s \<noteq> [] \<Longrightarrow> get_first w (JStr s) = Inr (JStr [hd s])"
  by (cases s) (simp_all add: get_first_def)

lemma validation_status:
  assumes "r = caught prefix (and_then x (validation_reply w valid label))"
    and "success r"
  shows "message r = Some valid"
proof (cases x)
  case (Inl e)
  with assms show ?thesis by simp
next
  case (Inr resp)
  show ?thesis
  proof (cases "ok resp")
    case True
    with Inr assms show ?thesis by (simp add: validation_reply_simps)
  next
    case False
    show ?thesis
    proof (cases "json resp")
      case (Inl e)
      with False Inr assms show ?thesis
        by (simp add: validation_reply_simps error_reply_simps)
    next
      case v: (Inr v)
      with False Inr assms show ?thesis
        by (cases "error_detail w v") (simp_all add: validation_reply_simps error_reply_simps)
    qed
  qed
qed

lemma validateApiKey_status:
  assumes "success (fst (validateApiKey w provider apiKey))"
  shows "\<exists>m. message (fst (validateApiKey w provider apiKey)) = Some m \<and> m \<noteq> []
           \<and> m \<in> {js ''OpenAI API key is valid'', js ''Anthropic API key is valid'',
                  js ''Gemini API key is valid''}"
proof -
  consider "whitespace_only apiKey"
    | "\<not> whitespace_only apiKey" "provider = JStr (js ''openai'')"
    | "\<not> whitespace_only apiKey" "provider = JStr (js ''anthropic'')"
    | "\<not> whitespace_only apiKey" "provider = JStr (js ''gemini'')"
    | "\<not> whitespace_only apiKey" "provider \<noteq> JStr (js ''openai'')"
        "provider \<noteq> JStr (js ''anthropic'')" "provider \<noteq> JStr (js ''gemini'')"
    by blast
  then show ?thesis
  proof cases
    case 1
    with assms show ?thesis by (simp add: validateApiKey_form)
  next
    case 2
    then have "fst (validateApiKey w provider apiKey) =
        caught (js ''Error validating API key: '')
          (and_then (fetch w (openai_models_request apiKey))
             (validation_reply w (js ''OpenAI API key is valid'') (js ''Invalid OpenAI API key: '')))"
      by (simp add: validateApiKey_form)
    from validation_status [OF this assms] show ?thesis by simp
  next
    case 3
    then have "fst (validateApiKey w provider apiKey) =
        caught (js ''Error validating API key: '')
          (and_then (fetch w (anthropic_probe_request apiKey))
             (validation_reply w (js ''Anthropic API key is valid'')
                (js ''Invalid Anthropic API key: '')))"
      by (simp add: validateApiKey_form)
    from validation_status [OF this assms] show ?thesis by simp
  next
    case 4
    then have "fst (validateApiKey w provider apiKey) =
        caught (js ''Error validating API key: '')
          (and_then (fetch w (gemini_models_request apiKey))
             (validation_reply w (js ''Gemini API key is valid'') (js ''Invalid Gemini API key: '')))"
      by (simp add: validateApiKey_form)
    from validation_status [OF this assms] show ?thesis by simp
  next
    case 5
    with assms show ?thesis by (simp add: validateApiKey_form)
  qed
qed

lemma generation_success:
  assumes "r = caught prefix (and_then x (generation_reply w path label))"
    and "success r"
  shows "\<exists>resp v y. x = Inr resp \<and> ok resp \<and> json resp = Inr v \<and> path v = Inr y
           \<and> data r = Some y"
proof (cases x)
  case (Inl e)
  with assms show ?thesis by simp
next
  case (Inr resp)
  show ?thesis
  proof (cases "json resp")
    case (Inl e)
    with Inr assms show ?thesis
      by (cases "ok resp") (simp_all add: generation_reply_simps error_reply_simps)
  next
    case v: (Inr v)
    show ?thesis
    proof (cases "ok resp")
      case True
      with v Inr assms show ?thesis
        by (cases "path v") (simp_all add: generation_reply_simps)
    next
      case False
      with v Inr assms show ?thesis
        by (cases "error_detail w v") (simp_all add: generation_reply_simps error_reply_simps)
    qed
  qed
qed

lemma sendPromptToLLM_success:
  assumes "success (fst (sendPromptToLLM w provider model apiKey prompt))"
  shows "\<exists>req resp v x. snd (sendPromptToLLM w provider model apiKey prompt) = [req]
            \<and> fetch w req = Inr resp \<and> ok resp \<and> json resp = Inr v
            \<and> data (fst (sendPromptToLLM w provider model apiKey prompt)) = Some x
            \<and> (provider = JStr (js ''openai'') \<and> openai_text w v = Inr x
               \<or> provider = JStr (js ''anthropic'') \<and> anthropic_text w v = Inr x
               \<or> provider = JStr (js ''gemini'') \<and> gemini_text w v = Inr x)"
proof -
  consider "whitespace_only apiKey \<or> whitespace_only prompt"
    | "\<not> whitespace_only apiKey" "\<not> whitespace_only prompt" "provider = JStr (js ''openai'')"
    | "\<not> whitespace_only apiKey" "\<not> whitespace_only prompt" "provider = JStr (js ''anthropic'')"
    | "\<not> whitespace_only apiKey" "\<not> whitespace_only prompt" "provider = JStr (js ''gemini'')"
    | "\<not> whitespace_only apiKey" "\<not> whitespace_only prompt" "provider \<noteq> JStr (js ''openai'')"
        "provider \<noteq> JStr (js ''anthropic'')" "provider \<noteq> JStr (js ''gemini'')"
    by blast
  then show ?thesis
  proof cases
    case 1
    then have "\<not> success (fst (sendPromptToLLM w provider model apiKey prompt))"
      by (cases "whitespace_only apiKey") (simp_all add: sendPromptToLLM_form)
    with assms show ?thesis by simp
  next
    case 2
    then have r: "fst (sendPromptToLLM w provider model apiKey prompt) =
        caught (js ''Error sending prompt: '')
          (and_then (fetch w (openai_chat_request model apiKey prompt))
             (generation_reply w (openai_text w) (js ''OpenAI API error: '')))"
      and c: "snd (sendPromptToLLM w provider model apiKey prompt)
        = [openai_chat_request model apiKey prompt]"
      by (simp_all add: sendPromptToLLM_form)
    from generation_success [OF r assms] c 2 show ?thesis by blast
  next
    case 3
    then have r: "fst (sendPromptToLLM w provider model apiKey prompt) =
        caught (js ''Error sending prompt: '')
          (and_then (fetch w (anthropic_messages_request model apiKey prompt))
             (generation_reply w (anthropic_text w) (js ''Anthropic API error: '')))"
      and c: "snd (sendPromptToLLM w provider model apiKey prompt)
        = [anthropic_messages_request model apiKey prompt]"
      by (simp_all add: sendPromptToLLM_form)
    from generation_success [OF r assms] c 3 show ?thesis by blast
  next
    case 4
    then have r: "fst (sendPromptToLLM w provider model apiKey prompt) =
        caught (js ''Error sending prompt: '')
          (and_then (fetch w (gemini_generate_request model apiKey prompt))
             (generation_reply w (gemini_text w) (js ''Gemini API error: '')))"
      and c: "snd (sendPromptToLLM w provider model apiKey prompt)
        = [gemini_generate_request model apiKey prompt]"
      by (simp_all add: sendPromptToLLM_form)
    from generation_success [OF r assms] c 4 show ?thesis by blast
  next
    case 5
    with assms show ?thesis by (simp add: sendPromptToLLM_form)
  qed
qed

section \<open>Facts about the test platforms and the example strings\<close>

lemma fetch_stub [simp]: "fetch (stub_platform outcome) req = outcome"
  by (simp add: stub_platform_def)

lemma read_error_stub:
  "read_error (stub_platform outcome) JUndefined k
     = js ''Cannot read properties of undefined (reading '' @ [0x27] @ k @ [0x27] @ js '')''"
  by (simp add: stub_platform_def js_append_more)

lemma not_blank_sk_test: "\<not> whitespace_only (js ''sk-test'')"
  by (simp add: whitespace_only_def js_def is_white_space_def)

lemma not_blank_Hello: "\<not> whitespace_only (js ''Hello'')"
  by (simp add: whitespace_only_def js_def is_white_space_def)

lemma blank_spaces: "whitespace_only (js ''  '')"
  by (simp add: whitespace_only_def js_def is_white_space_def)

section \<open>Claims\<close>

text \<open>
  In the statements, a credential or prompt the specification calls non-empty is one
  that is not \<open>whitespace_only\<close>: the specification treats whitespace-only as empty.
  \<open>fst\<close> of a call is the \<open>ApiResponse\<close> it returns and \<open>snd\<close> the list of requests
  it issued.
\<close>

subsection \<open>C1: every exception is caught and normalised\<close>

text \<open>
  C1. Both functions are total: for every provider value, credential, model, prompt
  and platform they return one \<open>ApiResponse\<close> (with the list of requests issued), never
  a thrown value. Whatever the \<open>try\<close> block throws (\<open>fetch\<close> throwing,
  \<open>response.json()\<close> throwing, a \<open>TypeError\<close> on a body that lacks the expected
  fields) is turned by the \<open>catch\<close> into \<open>success = false\<close> with the message
  \<open>Error validating API key: \<close> (validator) or \<open>Error sending prompt: \<close> (dispatcher)
  followed by the exception's message when it is an \<open>Error\<close> and by \<open>Unknown error\<close>
  otherwise. In particular this is the result when \<open>fetch\<close> throws on the request
  issued, and when \<open>response.json()\<close> throws on a body that the code reads (the
  validator reads the body of a non-2xx response only).
\<close>

theorem exceptions_normalized:
  "fst (validateApiKey w provider apiKey) =
     (case fst (validateApiKey_try w provider apiKey) of
        Inr result \<Rightarrow> result
      | Inl e \<Rightarrow> failure (js ''Error validating API key: '' @ thrown_detail e))
   \<and> fst (sendPromptToLLM w provider model apiKey prompt) =
     (case fst (sendPromptToLLM_try w provider model apiKey prompt) of
        Inr result \<Rightarrow> result
      | Inl e \<Rightarrow> failure (js ''Error sending prompt: '' @ thrown_detail e))
   \<and> (\<forall>req e. snd (validateApiKey w provider apiKey) = [req] \<and> fetch w req = Inl e \<longrightarrow>
         fst (validateApiKey w provider apiKey)
           = failure (js ''Error validating API key: '' @ thrown_detail e))
   \<and> (\<forall>req resp e. snd (validateApiKey w provider apiKey) = [req] \<and> fetch w req = Inr resp
           \<and> \<not> ok resp \<and> json resp = Inl e \<longrightarrow>
         fst (validateApiKey w provider apiKey)
           = failure (js ''Error validating API key: '' @ thrown_detail e))
   \<and> (\<forall>req e. snd (sendPromptToLLM w provider model apiKey prompt) = [req] \<and> fetch w req = Inl e \<longrightarrow>
         fst (sendPromptToLLM w provider model apiKey prompt)
           = failure (js ''Error sending prompt: '' @ thrown_detail e))
   \<and> (\<forall>req resp e. snd (sendPromptToLLM w provider model apiKey prompt) = [req]
           \<and> fetch w req = Inr resp \<and> json resp = Inl e \<longrightarrow>
         fst (sendPromptToLLM w provider model apiKey prompt)
           = failure (js ''Error sending prompt: '' @ thrown_detail e))
   \<and> (\<forall>m. thrown_detail (ErrorObject m) = m)
   \<and> thrown_detail NonError = js ''Unknown error''"
proof (intro conjI allI impI)
  show "fst (validateApiKey w provider apiKey) =
     (case fst (validateApiKey_try w provider apiKey) of
        Inr result \<Rightarrow> result
      | Inl e \<Rightarrow> failure (js ''Error validating API key: '' @ thrown_detail e))"
    by (simp add: validateApiKey_caught caught_def)
  show "fst (sendPromptToLLM w provider model apiKey prompt) =
     (case fst (sendPromptToLLM_try w provider model apiKey prompt) of
        Inr result \<Rightarrow> result
      | Inl e \<Rightarrow> failure (js ''Error sending prompt: '' @ thrown_detail e))"
    by (simp add: sendPromptToLLM_caught caught_def)
next
  fix req e
  assume h: "snd (validateApiKey w provider apiKey) = [req] \<and> fetch w req = Inl e"
  then obtain valid label where "fst (validateApiKey w provider apiKey) =
      caught (js ''Error validating API key: '') (and_then (fetch w req) (validation_reply w valid label))"
    using validateApiKey_one_call by blast
  with h show "fst (validateApiKey w provider apiKey)
      = failure (js ''Error validating API key: '' @ thrown_detail e)"
    by simp
next
  fix req resp e
  assume h: "snd (validateApiKey w provider apiKey) = [req] \<and> fetch w req = Inr resp
           \<and> \<not> ok resp \<and> json resp = Inl e"
  then obtain valid label where "fst (validateApiKey w provider apiKey) =
      caught (js ''Error validating API key: '') (and_then (fetch w req) (validation_reply w valid label))"
    using validateApiKey_one_call by blast
  with h show "fst (validateApiKey w provider apiKey)
      = failure (js ''Error validating API key: '' @ thrown_detail e)"
    by (simp add: validation_reply_simps error_reply_simps)
next
  fix req e
  assume h: "snd (sendPromptToLLM w provider model apiKey prompt) = [req] \<and> fetch w req = Inl e"
  then obtain path label where "fst (sendPromptToLLM w provider model apiKey prompt) =
      caught (js ''Error sending prompt: '') (and_then (fetch w req) (generation_reply w path label))"
    using sendPromptToLLM_one_call by blast
  with h show "fst (sendPromptToLLM w provider model apiKey prompt)
      = failure (js ''Error sending prompt: '' @ thrown_detail e)"
    by simp
next
  fix req resp e
  assume h: "snd (sendPromptToLLM w provider model apiKey prompt) = [req]
           \<and> fetch w req = Inr resp \<and> json resp = Inl e"
  then obtain path label where "fst (sendPromptToLLM w provider model apiKey prompt) =
      caught (js ''Error sending prompt: '') (and_then (fetch w req) (generation_reply w path label))"
    using sendPromptToLLM_one_call by blast
  with h show "fst (sendPromptToLLM w provider model apiKey prompt)
      = failure (js ''Error sending prompt: '' @ thrown_detail e)"
    by (cases "ok resp") (simp_all add: generation_reply_simps error_reply_simps)
next
  show "thrown_detail (ErrorObject m) = m" for m by (simp add: thrown_detail_def)
  show "thrown_detail NonError = js ''Unknown error''" by (simp add: thrown_detail_def)
qed

theorem exceptions_normalized_witness:
  "fst (validateApiKey (stub_platform (Inl (ErrorObject (js ''Failed to fetch''))))
          (JStr (js ''openai'')) (js ''sk-test''))
     = failure (js ''Error validating API key: Failed to fetch'')
   \<and> fst (sendPromptToLLM (stub_platform (Inr \<lparr>ok = True, json = Inl NonError\<rparr>))
          (JStr (js ''gemini'')) (js ''gemini-pro'') (js ''sk-test'') (js ''Hello''))
     = failure (js ''Error sending prompt: Unknown error'')
   \<and> fst (sendPromptToLLM (stub_platform (Inr \<lparr>ok = True, json = Inr JNull\<rparr>))
          (JStr (js ''anthropic'')) (js ''claude-3-opus'') (js ''sk-test'') (js ''Hello''))
     = failure (js ''Error sending prompt: Cannot read properties of null (reading ''
                  @ [0x27] @ js ''content'' @ [0x27] @ js '')'')"
proof -
  let ?w = "stub_platform (Inl (ErrorObject (js ''Failed to fetch'')))"
  let ?v = "stub_platform (Inr \<lparr>ok = True, json = Inl NonError\<rparr>)"
  let ?u = "stub_platform (Inr \<lparr>ok = True, json = Inr JNull\<rparr>)"
  have c1: "snd (validateApiKey ?w (JStr (js ''openai'')) (js ''sk-test''))
      = [openai_models_request (js ''sk-test'')]"
    by (simp add: validateApiKey_form not_blank_sk_test)
  have f1: "fetch ?w (openai_models_request (js ''sk-test'')) = Inl (ErrorObject (js ''Failed to fetch''))"
    by simp
  from exceptions_normalized [of ?w "JStr (js ''openai'')" "js ''sk-test''"] c1 f1
  have "fst (validateApiKey ?w (JStr (js ''openai'')) (js ''sk-test''))
      = failure (js ''Error validating API key: '' @ thrown_detail (ErrorObject (js ''Failed to fetch'')))"
    by blast
  then have a: "fst (validateApiKey ?w (JStr (js ''openai'')) (js ''sk-test''))
      = failure (js ''Error validating API key: Failed to fetch'')"
    by (simp add: thrown_detail_def js_def)
  have c2: "snd (sendPromptToLLM ?v (JStr (js ''gemini'')) (js ''gemini-pro'') (js ''sk-test'') (js ''Hello''))
      = [gemini_generate_request (js ''gemini-pro'') (js ''sk-test'') (js ''Hello'')]"
    by (simp add: sendPromptToLLM_form not_blank_sk_test not_blank_Hello)
  have f2: "fetch ?v (gemini_generate_request (js ''gemini-pro'') (js ''sk-test'') (js ''Hello''))
      = Inr \<lparr>ok = True, json = Inl NonError\<rparr>"
    by simp
  have j2: "json \<lparr>ok = True, json = Inl NonError\<rparr> = Inl NonError"
    by simp
  from exceptions_normalized [of ?v "JStr (js ''gemini'')" "js ''sk-test''" "js ''gemini-pro''" "js ''Hello''"]
    c2 f2 j2
  have "fst (sendPromptToLLM ?v (JStr (js ''gemini'')) (js ''gemini-pro'') (js ''sk-test'') (js ''Hello''))
      = failure (js ''Error sending prompt: '' @ thrown_detail NonError)"
    by blast
  then have b: "fst (sendPromptToLLM ?v (JStr (js ''gemini'')) (js ''gemini-pro'') (js ''sk-test'') (js ''Hello''))
      = failure (js ''Error sending prompt: Unknown error'')"
    by (simp add: thrown_detail_def js_def)
  have t: "fst (sendPromptToLLM_try ?u (JStr (js ''anthropic'')) (js ''claude-3-opus'')
              (js ''sk-test'') (js ''Hello''))
      = Inl (ErrorObject (read_error ?u JNull (js ''content'')))"
    by (simp add: sendPromptToLLM_try_form not_blank_sk_test not_blank_Hello
        generation_reply_simps anthropic_text_def get_member_def)
  from exceptions_normalized [where w = ?u and provider = "JStr (js ''anthropic'')"
      and model = "js ''claude-3-opus''" and apiKey = "js ''sk-test''" and prompt = "js ''Hello''"] t
  have "fst (sendPromptToLLM ?u (JStr (js ''anthropic'')) (js ''claude-3-opus'')
              (js ''sk-test'') (js ''Hello''))
      = failure (js ''Error sending prompt: '' @ read_error ?u JNull (js ''content''))"
    by (simp add: thrown_detail_def)
  then have c: "fst (sendPromptToLLM ?u (JStr (js ''anthropic'')) (js ''claude-3-opus'')
              (js ''sk-test'') (js ''Hello''))
      = failure (js ''Error sending prompt: Cannot read properties of null (reading ''
                  @ [0x27] @ js ''content'' @ [0x27] @ js '')'')"
    by (simp add: stub_platform_def js_append_more)
  from a b c show ?thesis by blast
qed

subsection \<open>C2: the message of a rejected credential\<close>

text \<open>
  C2, as amended. For each of the three providers, when the response to the validation
  request is non-2xx and its body decodes as JSON other than \<open>null\<close>, \<open>validateApiKey\<close>
  returns \<open>success = false\<close> with the message \<open>Invalid <Provider> API key: <detail>\<close>,
  where the detail is the string form of the body's \<open>error.message\<close> when that value
  is truthy (for a string: when it is not empty) and \<open>Unknown error\<close> when the field
  is absent, \<open>null\<close>, \<open>false\<close> or the empty string. Whether a numeric message is
  truthy is the engine's \<open>ToBoolean\<close> to decide (the platform's \<open>number_truthy\<close>); the
  detail is then the number's string form or \<open>Unknown error\<close> accordingly. For Anthropic
  and the body
  \<open>{"error":{"message":"invalid x-api-key"}}\<close> the message is exactly
  \<open>Invalid Anthropic API key: invalid x-api-key\<close>. When the body does not decode, is
  \<open>null\<close>, or holds a field whose conversion to a string throws, the result is the
  \<open>catch\<close> block's \<open>Error validating API key: <detail>\<close>.
\<close>

theorem invalid_key_message:
  assumes "(provider, label) \<in> {(JStr (js ''openai''), js ''OpenAI''),
             (JStr (js ''anthropic''), js ''Anthropic''), (JStr (js ''gemini''), js ''Gemini'')}"
    and "snd (validateApiKey w provider apiKey) = [req]"
    and "fetch w req = Inr resp" and "\<not> ok resp"
  shows "(\<forall>v s. json resp = Inr v \<and> error_message_field v = JStr s \<and> s \<noteq> [] \<longrightarrow>
            fst (validateApiKey w provider apiKey)
              = failure (js ''Invalid '' @ label @ js '' API key: '' @ s))
       \<and> (\<forall>v. json resp = Inr v \<and> v \<noteq> JNull \<and> v \<noteq> JUndefined
              \<and> \<not> to_boolean w (error_message_field v) \<longrightarrow>
            fst (validateApiKey w provider apiKey)
              = failure (js ''Invalid '' @ label @ js '' API key: '' @ js ''Unknown error''))
       \<and> (\<forall>v d. json resp = Inr v \<and> to_boolean w (error_message_field v)
              \<and> to_string w (error_message_field v) = Inr d \<longrightarrow>
            fst (validateApiKey w provider apiKey)
              = failure (js ''Invalid '' @ label @ js '' API key: '' @ d))
       \<and> (provider = JStr (js ''anthropic'')
            \<and> json resp = Inr (JObj [(js ''error'',
                  JObj [(js ''message'', JStr (js ''invalid x-api-key''))])]) \<longrightarrow>
            fst (validateApiKey w provider apiKey)
              = failure (js ''Invalid Anthropic API key: invalid x-api-key''))
       \<and> (\<forall>e. json resp = Inl e
              \<or> (\<exists>v. json resp = Inr v \<and> to_boolean w (error_message_field v)
                    \<and> to_string w (error_message_field v) = Inl e) \<longrightarrow>
            fst (validateApiKey w provider apiKey)
              = failure (js ''Error validating API key: '' @ thrown_detail e))
       \<and> (json resp = Inr JNull \<longrightarrow>
            fst (validateApiKey w provider apiKey)
              = failure (js ''Error validating API key: '' @ read_error w JNull (js ''error'')))
       \<and> (\<forall>v. json resp = Inr v \<and> v \<noteq> JNull \<and> v \<noteq> JUndefined
              \<and> error_message_field v \<in> {JUndefined, JNull, JBool False, JStr []} \<longrightarrow>
            fst (validateApiKey w provider apiKey)
              = failure (js ''Invalid '' @ label @ js '' API key: '' @ js ''Unknown error''))
       \<and> (\<forall>v q. json resp = Inr v \<and> error_message_field v = JNum q \<longrightarrow>
            fst (validateApiKey w provider apiKey)
              = failure (js ''Invalid '' @ label @ js '' API key: ''
                  @ (if number_truthy w q then number_to_string w q else js ''Unknown error'')))"
proof -
  note r = validateApiKey_rejected [OF assms]
  have field: "v \<noteq> JNull \<and> v \<noteq> JUndefined" if "to_boolean w (error_message_field v)" for v
    using that by (cases v) (simp_all add: error_message_field_def)
  have known: "fst (validateApiKey w provider apiKey) =
      caught (js ''Error validating API key: '')
        (and_then (to_string w (if to_boolean w (error_message_field v) then error_message_field v
                                else JStr (js ''Unknown error'')))
           (\<lambda>d. Inr (failure ((js ''Invalid '' @ label @ js '' API key: '') @ d))))"
    if "json resp = Inr v" and "v \<noteq> JNull" and "v \<noteq> JUndefined" for v
    using r that error_detail_field [of v w] by (simp add: error_reply_def)
  have a: "fst (validateApiKey w provider apiKey)
              = failure (js ''Invalid '' @ label @ js '' API key: '' @ s)"
    if h: "json resp = Inr v \<and> error_message_field v = JStr s \<and> s \<noteq> []" for v s
  proof -
    from h have "to_boolean w (error_message_field v)" by simp
    from field [OF this] h known [of v] show ?thesis by simp
  qed
  have b: "fst (validateApiKey w provider apiKey)
              = failure (js ''Invalid '' @ label @ js '' API key: '' @ js ''Unknown error'')"
    if "json resp = Inr v \<and> v \<noteq> JNull \<and> v \<noteq> JUndefined
          \<and> \<not> to_boolean w (error_message_field v)" for v
    using that known [of v] by simp
  have c: "fst (validateApiKey w provider apiKey)
              = failure (js ''Invalid '' @ label @ js '' API key: '' @ d)"
    if h: "json resp = Inr v \<and> to_boolean w (error_message_field v)
          \<and> to_string w (error_message_field v) = Inr d" for v d
    using h field [of v] known [of v] by simp
  have d: "fst (validateApiKey w provider apiKey)
              = failure (js ''Invalid Anthropic API key: invalid x-api-key'')"
    if h: "provider = JStr (js ''anthropic'')
            \<and> json resp = Inr (JObj [(js ''error'',
                  JObj [(js ''message'', JStr (js ''invalid x-api-key''))])])"
  proof -
    let ?v = "JObj [(js ''error'', JObj [(js ''message'', JStr (js ''invalid x-api-key''))])]"
    from h assms(1) have l: "label = js ''Anthropic''" by auto
    from h have "json resp = Inr ?v \<and> error_message_field ?v = JStr (js ''invalid x-api-key'')
        \<and> js ''invalid x-api-key'' \<noteq> []"
      by (simp add: error_message_field_def)
    from a [OF this] l show ?thesis by (simp add: js_append)
  qed
  have e: "fst (validateApiKey w provider apiKey)
              = failure (js ''Error validating API key: '' @ thrown_detail e)"
    if h: "json resp = Inl e
              \<or> (\<exists>v. json resp = Inr v \<and> to_boolean w (error_message_field v)
                    \<and> to_string w (error_message_field v) = Inl e)" for e
    using h
  proof
    assume "json resp = Inl e"
    with r show ?thesis by (simp add: error_reply_simps)
  next
    assume "\<exists>v. json resp = Inr v \<and> to_boolean w (error_message_field v)
                    \<and> to_string w (error_message_field v) = Inl e"
    then obtain v where v: "json resp = Inr v" "to_boolean w (error_message_field v)"
        "to_string w (error_message_field v) = Inl e"
      by blast
    with field [of v] known [of v] show ?thesis by simp
  qed
  have f: "fst (validateApiKey w provider apiKey)
              = failure (js ''Error validating API key: '' @ read_error w JNull (js ''error''))"
    if "json resp = Inr JNull"
    using that r by (simp add: error_reply_def error_detail_null thrown_detail_def)
  have g: "fst (validateApiKey w provider apiKey)
              = failure (js ''Invalid '' @ label @ js '' API key: '' @ js ''Unknown error'')"
    if h: "json resp = Inr v \<and> v \<noteq> JNull \<and> v \<noteq> JUndefined
              \<and> error_message_field v \<in> {JUndefined, JNull, JBool False, JStr []}" for v
  proof -
    from h have "\<not> to_boolean w (error_message_field v)" by auto
    with h b [of v] show ?thesis by simp
  qed
  have n: "fst (validateApiKey w provider apiKey)
              = failure (js ''Invalid '' @ label @ js '' API key: ''
                  @ (if number_truthy w q then number_to_string w q else js ''Unknown error''))"
    if h: "json resp = Inr v \<and> error_message_field v = JNum q" for v q
  proof -
    from h have nn: "v \<noteq> JNull \<and> v \<noteq> JUndefined"
      by (cases v) (simp_all add: error_message_field_def)
    show ?thesis
    proof (cases "number_truthy w q")
      case True
      with h c [of v "number_to_string w q"] show ?thesis by simp
    next
      case False
      with h nn b [of v] show ?thesis by simp
    qed
  qed
  from a b c d e f g n show ?thesis by blast
qed

theorem invalid_key_message_witness:
  "fst (validateApiKey
         (stub_platform (Inr \<lparr>ok = False, json = Inr (JObj [(js ''error'',
            JObj [(js ''message'', JStr (js ''invalid x-api-key''))])])\<rparr>))
         (JStr (js ''anthropic'')) (js ''sk-test''))
     = failure (js ''Invalid Anthropic API key: invalid x-api-key'')
   \<and> fst (validateApiKey (stub_platform (Inr \<lparr>ok = False, json = Inr (JObj [])\<rparr>))
         (JStr (js ''gemini'')) (js ''sk-test''))
     = failure (js ''Invalid Gemini API key: Unknown error'')"
proof -
  let ?body = "JObj [(js ''error'', JObj [(js ''message'', JStr (js ''invalid x-api-key''))])]"
  let ?r1 = "\<lparr>ok = False, json = Inr ?body\<rparr>"
  let ?r2 = "\<lparr>ok = False, json = Inr (JObj [])\<rparr>"
  have p1: "(JStr (js ''anthropic''), js ''Anthropic'') \<in> {(JStr (js ''openai''), js ''OpenAI''),
             (JStr (js ''anthropic''), js ''Anthropic''), (JStr (js ''gemini''), js ''Gemini'')}"
    by simp
  have c1: "snd (validateApiKey (stub_platform (Inr ?r1)) (JStr (js ''anthropic'')) (js ''sk-test''))
      = [anthropic_probe_request (js ''sk-test'')]"
    by (simp add: validateApiKey_form not_blank_sk_test)
  have a: "fst (validateApiKey (stub_platform (Inr ?r1)) (JStr (js ''anthropic'')) (js ''sk-test''))
     = failure (js ''Invalid Anthropic API key: invalid x-api-key'')"
    using invalid_key_message [OF p1 c1, of ?r1] by simp
  have p2: "(JStr (js ''gemini''), js ''Gemini'') \<in> {(JStr (js ''openai''), js ''OpenAI''),
             (JStr (js ''anthropic''), js ''Anthropic''), (JStr (js ''gemini''), js ''Gemini'')}"
    by simp
  have c2: "snd (validateApiKey (stub_platform (Inr ?r2)) (JStr (js ''gemini'')) (js ''sk-test''))
      = [gemini_models_request (js ''sk-test'')]"
    by (simp add: validateApiKey_form not_blank_sk_test)
  have t: "\<not> to_boolean (stub_platform (Inr ?r2)) (error_message_field (JObj []))"
    by (simp add: error_message_field_def)
  have "fst (validateApiKey (stub_platform (Inr ?r2)) (JStr (js ''gemini'')) (js ''sk-test''))
     = failure (js ''Invalid '' @ js ''Gemini'' @ js '' API key: '' @ js ''Unknown error'')"
    using invalid_key_message [OF p2 c2, of ?r2] t by simp
  then have b: "fst (validateApiKey (stub_platform (Inr ?r2)) (JStr (js ''gemini'')) (js ''sk-test''))
     = failure (js ''Invalid Gemini API key: Unknown error'')"
    by (simp add: js_append)
  from a b show ?thesis by (rule conjI)
qed

text \<open>
  C2 as stated fails on two non-2xx responses to the OpenAI validation request. With
  the body \<open>{"error":{"message":""}}\<close> the field is present and the detail is
  \<open>Unknown error\<close>, not the field. With a body that does not parse, \<open>response.json()\<close>
  throws and the message is the \<open>catch\<close> block's, not \<open>Invalid OpenAI API key: ...\<close>.
\<close>

theorem invalid_key_message_counterexample:
  "fst (validateApiKey
         (stub_platform (Inr \<lparr>ok = False, json = Inr (JObj [(js ''error'',
            JObj [(js ''message'', JStr [])])])\<rparr>))
         (JStr (js ''openai'')) (js ''sk-test''))
     = failure (js ''Invalid OpenAI API key: Unknown error'')
   \<and> fst (validateApiKey
         (stub_platform (Inr \<lparr>ok = False,
            json = Inl (ErrorObject (js ''Unexpected token < in JSON at position 0''))\<rparr>))
         (JStr (js ''openai'')) (js ''sk-test''))
     = failure (js ''Error validating API key: Unexpected token < in JSON at position 0'')"
  by (simp add: validateApiKey_form not_blank_sk_test validation_reply_simps error_reply_def
      error_detail_def get_member_def optional_member_def thrown_detail_def js_append)

subsection \<open>C3: the OpenAI branch of the dispatcher\<close>

text \<open>
  C3, as amended. For the provider \<open>openai\<close> with a credential and a prompt that are not
  blank, \<open>sendPromptToLLM\<close> issues exactly one request: a POST to the chat-completions
  endpoint with bearer authorization and a body holding the model, a single user
  message with the raw prompt and temperature 0.7, and nothing else (no cap on the
  output length). On a 2xx response whose body decodes as JSON in which
  \<open>choices[0].message.content\<close> can be read, it returns \<open>success = true\<close> with \<open>data\<close>
  that value. On a non-2xx response whose error body can be read it returns
  \<open>success = false\<close> with the message \<open>OpenAI API error: <detail>\<close>. When decoding the
  body or reading those properties throws, the result is the \<open>catch\<close> block's
  \<open>Error sending prompt: <detail>\<close>.
\<close>

theorem openai_dispatch:
  assumes "\<not> whitespace_only apiKey" and "\<not> whitespace_only prompt"
  shows "snd (sendPromptToLLM w (JStr (js ''openai'')) model apiKey prompt) =
       [\<lparr>url = js ''https://api.openai.com/v1/chat/completions'',
         http_method = js ''POST'',
         headers = [(js ''Authorization'', js ''Bearer '' @ apiKey),
                    (js ''Content-Type'', js ''application/json'')],
         body = Some (JObj
           [(js ''model'', JStr model),
            (js ''messages'', JArr [JObj [(js ''role'', JStr (js ''user'')),
                                          (js ''content'', JStr prompt)]]),
            (js ''temperature'', JNum (7 / 10))])\<rparr>]
     \<and> (\<forall>resp v choices choice msg content.
           fetch w (openai_chat_request model apiKey prompt) = Inr resp \<and> ok resp
           \<and> json resp = Inr v
           \<and> get_member w v (js ''choices'') = Inr choices
           \<and> get_first w choices = Inr choice
           \<and> get_member w choice (js ''message'') = Inr msg
           \<and> get_member w msg (js ''content'') = Inr content \<longrightarrow>
           fst (sendPromptToLLM w (JStr (js ''openai'')) model apiKey prompt)
             = \<lparr>success = True, message = None, data = Some content\<rparr>)
     \<and> (\<forall>resp v d.
           fetch w (openai_chat_request model apiKey prompt) = Inr resp \<and> \<not> ok resp
           \<and> json resp = Inr v \<and> error_detail w v = Inr d \<longrightarrow>
           fst (sendPromptToLLM w (JStr (js ''openai'')) model apiKey prompt)
             = failure (js ''OpenAI API error: '' @ d))
     \<and> (\<forall>resp e.
           fetch w (openai_chat_request model apiKey prompt) = Inr resp
           \<and> (json resp = Inl e \<or> (\<exists>v. json resp = Inr v
                 \<and> (if ok resp then openai_text w v = Inl e else error_detail w v = Inl e))) \<longrightarrow>
           fst (sendPromptToLLM w (JStr (js ''openai'')) model apiKey prompt)
             = failure (js ''Error sending prompt: '' @ thrown_detail e))"
proof -
  note eq = sendPromptToLLM_openai [OF assms, of w model]
  let ?r = "fst (sendPromptToLLM w (JStr (js ''openai'')) model apiKey prompt)"
  have r: "?r = caught (js ''Error sending prompt: '')
        (and_then (fetch w (openai_chat_request model apiKey prompt))
           (generation_reply w (openai_text w) (js ''OpenAI API error: '')))"
    by (simp add: eq)
  have a: "snd (sendPromptToLLM w (JStr (js ''openai'')) model apiKey prompt)
      = [openai_chat_request model apiKey prompt]"
    by (simp add: eq)
  have b: "?r = \<lparr>success = True, message = None, data = Some content\<rparr>"
    if h: "fetch w (openai_chat_request model apiKey prompt) = Inr resp \<and> ok resp
           \<and> json resp = Inr v
           \<and> get_member w v (js ''choices'') = Inr choices
           \<and> get_first w choices = Inr choice
           \<and> get_member w choice (js ''message'') = Inr msg
           \<and> get_member w msg (js ''content'') = Inr content"
    for resp v choices choice msg content
  proof -
    from h have "openai_text w v = Inr content" by (simp add: openai_text_def)
    with h caught_generation_reply(1) [OF r] show ?thesis by blast
  qed
  have c: "?r = failure (js ''OpenAI API error: '' @ d)"
    if "fetch w (openai_chat_request model apiKey prompt) = Inr resp \<and> \<not> ok resp
           \<and> json resp = Inr v \<and> error_detail w v = Inr d" for resp v d
    using that caught_generation_reply(2) [OF r] by blast
  have d: "?r = failure (js ''Error sending prompt: '' @ thrown_detail e)"
    if "fetch w (openai_chat_request model apiKey prompt) = Inr resp
           \<and> (json resp = Inl e \<or> (\<exists>v. json resp = Inr v
                 \<and> (if ok resp then openai_text w v = Inl e else error_detail w v = Inl e)))" for resp e
    using that caught_generation_reply(3) [OF r] by blast
  from a b c d show ?thesis by blast
qed

theorem openai_dispatch_witness:
  "sendPromptToLLM
     (stub_platform (Inr \<lparr>ok = True, json = Inr (JObj [(js ''choices'',
        JArr [JObj [(js ''message'', JObj [(js ''role'', JStr (js ''assistant'')),
                                           (js ''content'', JStr (js ''Hi!''))])]])])\<rparr>))
     (JStr (js ''openai'')) (js ''gpt-4o'') (js ''sk-test'') (js ''Hello'')
   = (\<lparr>success = True, message = None, data = Some (JStr (js ''Hi!''))\<rparr>,
      [openai_chat_request (js ''gpt-4o'') (js ''sk-test'') (js ''Hello'')])
   \<and> fst (sendPromptToLLM
         (stub_platform (Inr \<lparr>ok = False, json = Inr (JObj [(js ''error'',
            JObj [(js ''message'', JStr (js ''Rate limit reached''))])])\<rparr>))
         (JStr (js ''openai'')) (js ''gpt-4o'') (js ''sk-test'') (js ''Hello''))
     = failure (js ''OpenAI API error: Rate limit reached'')"
proof -
  let ?msg = "JObj [(js ''role'', JStr (js ''assistant'')), (js ''content'', JStr (js ''Hi!''))]"
  let ?choice = "JObj [(js ''message'', ?msg)]"
  let ?good = "JObj [(js ''choices'', JArr [?choice])]"
  let ?bad = "JObj [(js ''error'', JObj [(js ''message'', JStr (js ''Rate limit reached''))])]"
  let ?w1 = "stub_platform (Inr \<lparr>ok = True, json = Inr ?good\<rparr>)"
  let ?w2 = "stub_platform (Inr \<lparr>ok = False, json = Inr ?bad\<rparr>)"
  have g: "get_member ?w1 ?good (js ''choices'') = Inr (JArr [?choice])"
    "get_first ?w1 (JArr [?choice]) = Inr ?choice"
    "get_member ?w1 ?choice (js ''message'') = Inr ?msg"
    "get_member ?w1 ?msg (js ''content'') = Inr (JStr (js ''Hi!''))"
    by (simp_all add: get_member_def get_first_def)
  from openai_dispatch [OF not_blank_sk_test not_blank_Hello, of ?w1 "js ''gpt-4o''"] g
  have a: "sendPromptToLLM ?w1 (JStr (js ''openai'')) (js ''gpt-4o'') (js ''sk-test'') (js ''Hello'')
   = (\<lparr>success = True, message = None, data = Some (JStr (js ''Hi!''))\<rparr>,
      [openai_chat_request (js ''gpt-4o'') (js ''sk-test'') (js ''Hello'')])"
    by (simp add: prod_eq_iff)
  have d: "error_detail ?w2 ?bad = Inr (js ''Rate limit reached'')"
    by (rule error_detail_message_string) simp
  from openai_dispatch [OF not_blank_sk_test not_blank_Hello, of ?w2 "js ''gpt-4o''"] d
  have "fst (sendPromptToLLM ?w2 (JStr (js ''openai'')) (js ''gpt-4o'') (js ''sk-test'') (js ''Hello''))
     = failure (js ''OpenAI API error: '' @ js ''Rate limit reached'')"
    by simp
  then have b: "fst (sendPromptToLLM ?w2 (JStr (js ''openai'')) (js ''gpt-4o'') (js ''sk-test'') (js ''Hello''))
     = failure (js ''OpenAI API error: Rate limit reached'')"
    by (simp add: js_append)
  from a b show ?thesis by (rule conjI)
qed

text \<open>
  C3 as stated fails on a 2xx response with the body \<open>{}\<close>: reading \<open>choices[0]\<close>
  throws a \<open>TypeError\<close> and the result is \<open>success = false\<close>.
\<close>

theorem openai_dispatch_counterexample:
  "sendPromptToLLM (stub_platform (Inr \<lparr>ok = True, json = Inr (JObj [])\<rparr>))
     (JStr (js ''openai'')) (js ''gpt-4o'') (js ''sk-test'') (js ''Hello'')
   = (failure (js ''Error sending prompt: Cannot read properties of undefined (reading ''
                 @ [0x27] @ js ''0'' @ [0x27] @ js '')''),
      [openai_chat_request (js ''gpt-4o'') (js ''sk-test'') (js ''Hello'')])"
proof -
  let ?w = "stub_platform (Inr \<lparr>ok = True, json = Inr (JObj [])\<rparr>)"
  have t: "openai_text ?w (JObj []) = Inl (ErrorObject (read_error ?w JUndefined (js ''0'')))"
    by (simp add: openai_text_def get_member_def get_first_def)
  have "sendPromptToLLM ?w (JStr (js ''openai'')) (js ''gpt-4o'') (js ''sk-test'') (js ''Hello'')
      = (failure (js ''Error sending prompt: '' @ read_error ?w JUndefined (js ''0'')),
         [openai_chat_request (js ''gpt-4o'') (js ''sk-test'') (js ''Hello'')])"
    by (simp add: sendPromptToLLM_openai [OF not_blank_sk_test not_blank_Hello]
        generation_reply_simps t thrown_detail_def)
  then show ?thesis
    by (simp add: read_error_stub js_append_more)
qed

subsection \<open>C4: the Gemini branch of the dispatcher\<close>

text \<open>
  C4, as amended. For the provider \<open>gemini\<close> with a credential and a prompt that are not
  blank, \<open>sendPromptToLLM\<close> issues exactly one request: a POST to the generate-content
  endpoint with the model in the URL path and the credential as the query parameter
  \<open>key\<close>, a body nesting contents, parts and text around the raw prompt, and a
  \<open>generationConfig\<close> with temperature 0.7 and \<open>maxOutputTokens\<close> 1000. On a 2xx response
  whose body decodes as JSON in which \<open>candidates[0].content.parts[0].text\<close> can be
  read, it returns \<open>success = true\<close> with \<open>data\<close> that value; the body
  \<open>{"candidates":[{"content":{"parts":[{"text":"hi there"}]}}]}\<close> gives \<open>hi there\<close>.
  On a non-2xx response whose error body can be read it returns \<open>success = false\<close>
  with the message \<open>Gemini API error: <detail>\<close>. When decoding the body or reading
  those properties throws, the result is the \<open>catch\<close> block's
  \<open>Error sending prompt: <detail>\<close>.
\<close>

theorem gemini_dispatch:
  assumes "\<not> whitespace_only apiKey" and "\<not> whitespace_only prompt"
  shows "snd (sendPromptToLLM w (JStr (js ''gemini'')) model apiKey prompt) =
       [\<lparr>url = js ''https://generativelanguage.googleapis.com/v1beta/models/'' @ model
                @ js '':generateContent?key='' @ apiKey,
         http_method = js ''POST'',
         headers = [(js ''Content-Type'', js ''application/json'')],
         body = Some (JObj
           [(js ''contents'', JArr [JObj [(js ''parts'', JArr [JObj [(js ''text'', JStr prompt)]])]]),
            (js ''generationConfig'', JObj [(js ''temperature'', JNum (7 / 10)),
                                            (js ''maxOutputTokens'', JNum 1000)])])\<rparr>]
     \<and> (\<forall>resp v candidates candidate content parts part txt.
           fetch w (gemini_generate_request model apiKey prompt) = Inr resp \<and> ok resp
           \<and> json resp = Inr v
           \<and> get_member w v (js ''candidates'') = Inr candidates
           \<and> get_first w candidates = Inr candidate
           \<and> get_member w candidate (js ''content'') = Inr content
           \<and> get_member w content (js ''parts'') = Inr parts
           \<and> get_first w parts = Inr part
           \<and> get_member w part (js ''text'') = Inr txt \<longrightarrow>
           fst (sendPromptToLLM w (JStr (js ''gemini'')) model apiKey prompt)
             = \<lparr>success = True, message = None, data = Some txt\<rparr>)
     \<and> (\<forall>resp.
           fetch w (gemini_generate_request model apiKey prompt) = Inr resp \<and> ok resp
           \<and> json resp = Inr (JObj [(js ''candidates'', JArr [JObj [(js ''content'',
                 JObj [(js ''parts'', JArr [JObj [(js ''text'', JStr (js ''hi there''))]])])]])]) \<longrightarrow>
           fst (sendPromptToLLM w (JStr (js ''gemini'')) model apiKey prompt)
             = \<lparr>success = True, message = None, data = Some (JStr (js ''hi there''))\<rparr>)
     \<and> (\<forall>resp v d.
           fetch w (gemini_generate_request model apiKey prompt) = Inr resp \<and> \<not> ok resp
           \<and> json resp = Inr v \<and> error_detail w v = Inr d \<longrightarrow>
           fst (sendPromptToLLM w (JStr (js ''gemini'')) model apiKey prompt)
             = failure (js ''Gemini API error: '' @ d))
     \<and> (\<forall>resp e.
           fetch w (gemini_generate_request model apiKey prompt) = Inr resp
           \<and> (json resp = Inl e \<or> (\<exists>v. json resp = Inr v
                 \<and> (if ok resp then gemini_text w v = Inl e else error_detail w v = Inl e))) \<longrightarrow>
           fst (sendPromptToLLM w (JStr (js ''gemini'')) model apiKey prompt)
             = failure (js ''Error sending prompt: '' @ thrown_detail e))"
proof -
  note eq = sendPromptToLLM_gemini [OF assms, of w model]
  let ?r = "fst (sendPromptToLLM w (JStr (js ''gemini'')) model apiKey prompt)"
  have r: "?r = caught (js ''Error sending prompt: '')
        (and_then (fetch w (gemini_generate_request model apiKey prompt))
           (generation_reply w (gemini_text w) (js ''Gemini API error: '')))"
    by (simp add: eq)
  have a: "snd (sendPromptToLLM w (JStr (js ''gemini'')) model apiKey prompt)
      = [gemini_generate_request model apiKey prompt]"
    by (simp add: eq)
  have b: "?r = \<lparr>success = True, message = None, data = Some leaf\<rparr>"
    if h: "fetch w (gemini_generate_request model apiKey prompt) = Inr resp \<and> ok resp
           \<and> json resp = Inr v
           \<and> get_member w v (js ''candidates'') = Inr candidates
           \<and> get_first w candidates = Inr candidate
           \<and> get_member w candidate (js ''content'') = Inr content
           \<and> get_member w content (js ''parts'') = Inr parts
           \<and> get_first w parts = Inr part
           \<and> get_member w part (js ''text'') = Inr leaf"
    for resp v candidates candidate content parts part leaf
  proof -
    from h have "gemini_text w v = Inr leaf" by (simp add: gemini_text_def)
    with h caught_generation_reply(1) [OF r] show ?thesis by blast
  qed
  have c: "?r = \<lparr>success = True, message = None, data = Some (JStr (js ''hi there''))\<rparr>"
    if h: "fetch w (gemini_generate_request model apiKey prompt) = Inr resp \<and> ok resp
           \<and> json resp = Inr (JObj [(js ''candidates'', JArr [JObj [(js ''content'',
                 JObj [(js ''parts'', JArr [JObj [(js ''text'', JStr (js ''hi there''))]])])]])])"
    for resp
    using h caught_generation_reply(1) [OF r, of resp _ "JStr (js ''hi there'')"]
      gemini_text_example [of w "JStr (js ''hi there'')"]
    by blast
  have d: "?r = failure (js ''Gemini API error: '' @ d)"
    if "fetch w (gemini_generate_request model apiKey prompt) = Inr resp \<and> \<not> ok resp
           \<and> json resp = Inr v \<and> error_detail w v = Inr d" for resp v d
    using that caught_generation_reply(2) [OF r] by blast
  have e: "?r = failure (js ''Error sending prompt: '' @ thrown_detail e)"
    if "fetch w (gemini_generate_request model apiKey prompt) = Inr resp
           \<and> (json resp = Inl e \<or> (\<exists>v. json resp = Inr v
                 \<and> (if ok resp then gemini_text w v = Inl e else error_detail w v = Inl e)))"
    for resp e
    using that caught_generation_reply(3) [OF r] by blast
  from a b c d e show ?thesis by blast
qed

theorem gemini_dispatch_witness:
  "sendPromptToLLM
     (stub_platform (Inr \<lparr>ok = True, json = Inr (JObj [(js ''candidates'',
        JArr [JObj [(js ''content'',
          JObj [(js ''parts'', JArr [JObj [(js ''text'', JStr (js ''hi there''))]])])]])])\<rparr>))
     (JStr (js ''gemini'')) (js ''gemini-pro'') (js ''sk-test'') (js ''Hello'')
   = (\<lparr>success = True, message = None, data = Some (JStr (js ''hi there''))\<rparr>,
      [gemini_generate_request (js ''gemini-pro'') (js ''sk-test'') (js ''Hello'')])
   \<and> fst (sendPromptToLLM
         (stub_platform (Inr \<lparr>ok = False, json = Inr (JObj [(js ''error'',
            JObj [(js ''message'', JStr (js ''API key not valid''))])])\<rparr>))
         (JStr (js ''gemini'')) (js ''gemini-pro'') (js ''sk-test'') (js ''Hello''))
     = failure (js ''Gemini API error: API key not valid'')"
proof -
  let ?good = "JObj [(js ''candidates'', JArr [JObj [(js ''content'',
          JObj [(js ''parts'', JArr [JObj [(js ''text'', JStr (js ''hi there''))]])])]])]"
  let ?bad = "JObj [(js ''error'', JObj [(js ''message'', JStr (js ''API key not valid''))])]"
  let ?w1 = "stub_platform (Inr \<lparr>ok = True, json = Inr ?good\<rparr>)"
  let ?w2 = "stub_platform (Inr \<lparr>ok = False, json = Inr ?bad\<rparr>)"
  from gemini_dispatch [OF not_blank_sk_test not_blank_Hello, of ?w1 "js ''gemini-pro''"]
  have a: "sendPromptToLLM ?w1 (JStr (js ''gemini'')) (js ''gemini-pro'') (js ''sk-test'') (js ''Hello'')
   = (\<lparr>success = True, message = None, data = Some (JStr (js ''hi there''))\<rparr>,
      [gemini_generate_request (js ''gemini-pro'') (js ''sk-test'') (js ''Hello'')])"
    by (simp add: prod_eq_iff)
  have d: "error_detail ?w2 ?bad = Inr (js ''API key not valid'')"
    by (rule error_detail_message_string) simp
  from gemini_dispatch [OF not_blank_sk_test not_blank_Hello, of ?w2 "js ''gemini-pro''"] d
  have "fst (sendPromptToLLM ?w2 (JStr (js ''gemini'')) (js ''gemini-pro'') (js ''sk-test'') (js ''Hello''))
     = failure (js ''Gemini API error: '' @ js ''API key not valid'')"
    by simp
  then have b: "fst (sendPromptToLLM ?w2 (JStr (js ''gemini'')) (js ''gemini-pro'') (js ''sk-test'') (js ''Hello''))
     = failure (js ''Gemini API error: API key not valid'')"
    by (simp add: js_append)
  from a b show ?thesis by (rule conjI)
qed

text \<open>
  C4 as stated fails on a 2xx response that carries no candidates, here the body
  \<open>{"promptFeedback":{"blockReason":"SAFETY"}}\<close>: reading \<open>candidates[0]\<close> throws a
  \<open>TypeError\<close> and the result is \<open>success = false\<close>.
\<close>

theorem gemini_dispatch_counterexample:
  "sendPromptToLLM
     (stub_platform (Inr \<lparr>ok = True, json = Inr (JObj [(js ''promptFeedback'',
        JObj [(js ''blockReason'', JStr (js ''SAFETY''))])])\<rparr>))
     (JStr (js ''gemini'')) (js ''gemini-pro'') (js ''sk-test'') (js ''Hello'')
   = (failure (js ''Error sending prompt: Cannot read properties of undefined (reading ''
                 @ [0x27] @ js ''0'' @ [0x27] @ js '')''),
      [gemini_generate_request (js ''gemini-pro'') (js ''sk-test'') (js ''Hello'')])"
proof -
  let ?body = "JObj [(js ''promptFeedback'', JObj [(js ''blockReason'', JStr (js ''SAFETY''))])]"
  let ?w = "stub_platform (Inr \<lparr>ok = True, json = Inr ?body\<rparr>)"
  have t: "gemini_text ?w ?body = Inl (ErrorObject (read_error ?w JUndefined (js ''0'')))"
    by (simp add: gemini_text_def get_member_def get_first_def)
  have "sendPromptToLLM ?w (JStr (js ''gemini'')) (js ''gemini-pro'') (js ''sk-test'') (js ''Hello'')
      = (failure (js ''Error sending prompt: '' @ read_error ?w JUndefined (js ''0'')),
         [gemini_generate_request (js ''gemini-pro'') (js ''sk-test'') (js ''Hello'')])"
    by (simp add: sendPromptToLLM_gemini [OF not_blank_sk_test not_blank_Hello]
        generation_reply_simps t thrown_detail_def)
  then show ?thesis
    by (simp add: read_error_stub js_append_more)
qed

subsection \<open>C5: the input checks of the dispatcher\<close>

text \<open>
  C5. For every provider, model and prompt, \<open>sendPromptToLLM\<close> with an empty or
  whitespace-only credential returns \<open>{success: false, message: "API key is required"}\<close>,
  whatever the prompt (so the credential is checked first); with any other credential
  and an empty or whitespace-only prompt it returns
  \<open>{success: false, message: "Prompt cannot be empty"}\<close>. In both cases no request is
  issued.
\<close>

theorem sendPromptToLLM_input_checks:
  "(whitespace_only apiKey \<longrightarrow>
      sendPromptToLLM w provider model apiKey prompt = (failure (js ''API key is required''), []))
   \<and> (\<not> whitespace_only apiKey \<and> whitespace_only prompt \<longrightarrow>
      sendPromptToLLM w provider model apiKey prompt = (failure (js ''Prompt cannot be empty''), []))"
  by (simp add: sendPromptToLLM_form)

theorem sendPromptToLLM_input_checks_witness:
  "sendPromptToLLM (stub_platform (Inl NonError)) (JStr (js ''openai'')) (js ''gpt-4o'') [] (js ''  '')
     = (failure (js ''API key is required''), [])
   \<and> sendPromptToLLM (stub_platform (Inl NonError)) (JStr (js ''openai'')) (js ''gpt-4o'')
        (js ''sk-test'') (js ''  '')
     = (failure (js ''Prompt cannot be empty''), [])"
proof -
  have e: "whitespace_only []" by (simp add: whitespace_only_def)
  from sendPromptToLLM_input_checks
    [of "[]" "stub_platform (Inl NonError)" "JStr (js ''openai'')" "js ''gpt-4o''" "js ''  ''"] e
  have a: "sendPromptToLLM (stub_platform (Inl NonError)) (JStr (js ''openai'')) (js ''gpt-4o'') [] (js ''  '')
     = (failure (js ''API key is required''), [])"
    by blast
  from sendPromptToLLM_input_checks
    [of "js ''sk-test''" "stub_platform (Inl NonError)" "JStr (js ''openai'')" "js ''gpt-4o''" "js ''  ''"]
    not_blank_sk_test blank_spaces
  have b: "sendPromptToLLM (stub_platform (Inl NonError)) (JStr (js ''openai'')) (js ''gpt-4o'')
        (js ''sk-test'') (js ''  '')
     = (failure (js ''Prompt cannot be empty''), [])"
    by blast
  from a b show ?thesis by (rule conjI)
qed

subsection \<open>C6: the input check of the validator\<close>

text \<open>
  C6. For every provider value and every empty or whitespace-only credential,
  \<open>validateApiKey\<close> returns \<open>{success: false, message: "API key cannot be empty"}\<close>
  and issues no request.
\<close>

theorem validateApiKey_blank_key:
  assumes "whitespace_only apiKey"
  shows "validateApiKey w provider apiKey = (failure (js ''API key cannot be empty''), [])"
  using assms by (simp add: validateApiKey_form)

theorem validateApiKey_blank_key_witness:
  "whitespace_only [0x0020, 0x0009, 0x3000] \<and>
   validateApiKey (stub_platform (Inl NonError)) (JStr (js ''gemini'')) [0x0020, 0x0009, 0x3000]
     = (failure (js ''API key cannot be empty''), [])"
proof -
  have h: "whitespace_only [0x0020, 0x0009, 0x3000]"
    by (simp add: whitespace_only_def is_white_space_def)
  from validateApiKey_blank_key [OF h] h show ?thesis by simp
qed

subsection \<open>C7: unknown providers\<close>



subsection \<open>C8: the Anthropic branch of the validator\<close>

text \<open>
  C8, as amended. For the provider \<open>anthropic\<close> with a credential that is not blank,
  \<open>validateApiKey\<close> issues exactly one request: a POST to the messages endpoint with
  the credential in the header \<open>x-api-key\<close> (there is no \<open>Authorization\<close> header), the
  header \<open>anthropic-version: 2023-06-01\<close>, the model \<open>claude-3-5-haiku-20241022\<close>,
  \<open>max_tokens\<close> 1 and the single user message \<open>Hello\<close>. A 2xx response gives
  \<open>success = true\<close>. A non-2xx response gives \<open>success = false\<close>, with the message
  \<open>Invalid Anthropic API key: <detail>\<close> when its error body can be read, and with the
  \<open>catch\<close> block's \<open>Error validating API key: <detail>\<close> when decoding or reading the
  body throws.
\<close>

theorem anthropic_validation:
  assumes "\<not> whitespace_only apiKey"
  shows "snd (validateApiKey w (JStr (js ''anthropic'')) apiKey) =
       [\<lparr>url = js ''https://api.anthropic.com/v1/messages'',
         http_method = js ''POST'',
         headers = [(js ''x-api-key'', apiKey),
                    (js ''anthropic-version'', js ''2023-06-01''),
                    (js ''Content-Type'', js ''application/json'')],
         body = Some (JObj
           [(js ''model'', JStr (js ''claude-3-5-haiku-20241022'')),
            (js ''max_tokens'', JNum 1),
            (js ''messages'', JArr [JObj [(js ''role'', JStr (js ''user'')),
                                          (js ''content'', JStr (js ''Hello''))]])])\<rparr>]
     \<and> map_of (headers (anthropic_probe_request apiKey)) (js ''Authorization'') = None
     \<and> (\<forall>resp. fetch w (anthropic_probe_request apiKey) = Inr resp \<and> ok resp \<longrightarrow>
           fst (validateApiKey w (JStr (js ''anthropic'')) apiKey)
             = \<lparr>success = True, message = Some (js ''Anthropic API key is valid''), data = None\<rparr>)
     \<and> (\<forall>resp. fetch w (anthropic_probe_request apiKey) = Inr resp \<and> \<not> ok resp \<longrightarrow>
           \<not> success (fst (validateApiKey w (JStr (js ''anthropic'')) apiKey)))
     \<and> (\<forall>resp v d. fetch w (anthropic_probe_request apiKey) = Inr resp \<and> \<not> ok resp
           \<and> json resp = Inr v \<and> error_detail w v = Inr d \<longrightarrow>
           fst (validateApiKey w (JStr (js ''anthropic'')) apiKey)
             = failure (js ''Invalid Anthropic API key: '' @ d))
     \<and> (\<forall>resp e. fetch w (anthropic_probe_request apiKey) = Inr resp \<and> \<not> ok resp
           \<and> (json resp = Inl e \<or> (\<exists>v. json resp = Inr v \<and> error_detail w v = Inl e)) \<longrightarrow>
           fst (validateApiKey w (JStr (js ''anthropic'')) apiKey)
             = failure (js ''Error validating API key: '' @ thrown_detail e))"
proof -
  note eq = validateApiKey_anthropic [OF assms, of w]
  have a: "snd (validateApiKey w (JStr (js ''anthropic'')) apiKey) = [anthropic_probe_request apiKey]"
    by (simp add: eq)
  have b: "map_of (headers (anthropic_probe_request apiKey)) (js ''Authorization'') = None"
    by simp
  have c: "fst (validateApiKey w (JStr (js ''anthropic'')) apiKey)
             = \<lparr>success = True, message = Some (js ''Anthropic API key is valid''), data = None\<rparr>"
    if "fetch w (anthropic_probe_request apiKey) = Inr resp \<and> ok resp" for resp
    using that by (simp add: eq validation_reply_simps)
  have e: "fst (validateApiKey w (JStr (js ''anthropic'')) apiKey)
             = failure (js ''Invalid Anthropic API key: '' @ d)"
    if "fetch w (anthropic_probe_request apiKey) = Inr resp \<and> \<not> ok resp
           \<and> json resp = Inr v \<and> error_detail w v = Inr d" for resp v d
    using that by (simp add: eq validation_reply_simps error_reply_simps)
  have f: "fst (validateApiKey w (JStr (js ''anthropic'')) apiKey)
             = failure (js ''Error validating API key: '' @ thrown_detail e)"
    if "fetch w (anthropic_probe_request apiKey) = Inr resp \<and> \<not> ok resp
           \<and> (json resp = Inl e \<or> (\<exists>v. json resp = Inr v \<and> error_detail w v = Inl e))" for resp e
    using that by (auto simp add: eq validation_reply_simps error_reply_simps)
  have d: "\<not> success (fst (validateApiKey w (JStr (js ''anthropic'')) apiKey))"
    if h: "fetch w (anthropic_probe_request apiKey) = Inr resp \<and> \<not> ok resp" for resp
  proof (cases "json resp")
    case (Inl x)
    with h f [of resp x] show ?thesis by simp
  next
    case (Inr v)
    show ?thesis
    proof (cases "error_detail w v")
      case (Inl x)
      with h Inr f [of resp x] show ?thesis by simp
    next
      case (Inr y)
      with h \<open>json resp = Inr v\<close> e [of resp v y] show ?thesis by simp
    qed
  qed
  from a b c d e f show ?thesis by blast
qed

theorem anthropic_validation_witness:
  "validateApiKey (stub_platform (Inr \<lparr>ok = True, json = Inl NonError\<rparr>))
       (JStr (js ''anthropic'')) (js ''sk-test'')
     = (\<lparr>success = True, message = Some (js ''Anthropic API key is valid''), data = None\<rparr>,
        [anthropic_probe_request (js ''sk-test'')])
   \<and> fst (validateApiKey
         (stub_platform (Inr \<lparr>ok = False, json = Inr (JObj [(js ''error'',
            JObj [(js ''message'', JStr (js ''credit balance is too low''))])])\<rparr>))
         (JStr (js ''anthropic'')) (js ''sk-test''))
     = failure (js ''Invalid Anthropic API key: credit balance is too low'')"
proof -
  let ?good = "\<lparr>ok = True, json = Inl NonError\<rparr>"
  let ?body = "JObj [(js ''error'', JObj [(js ''message'', JStr (js ''credit balance is too low''))])]"
  let ?bad = "\<lparr>ok = False, json = Inr ?body\<rparr>"
  have d: "error_detail (stub_platform (Inr ?bad)) ?body = Inr (js ''credit balance is too low'')"
    by (rule error_detail_message_string) simp
  from anthropic_validation [OF not_blank_sk_test, of "stub_platform (Inr ?good)"]
  have a: "validateApiKey (stub_platform (Inr ?good)) (JStr (js ''anthropic'')) (js ''sk-test'')
     = (\<lparr>success = True, message = Some (js ''Anthropic API key is valid''), data = None\<rparr>,
        [anthropic_probe_request (js ''sk-test'')])"
    by (simp add: prod_eq_iff)
  from anthropic_validation [OF not_blank_sk_test, of "stub_platform (Inr ?bad)"] d
  have "fst (validateApiKey (stub_platform (Inr ?bad)) (JStr (js ''anthropic'')) (js ''sk-test''))
     = failure (js ''Invalid Anthropic API key: '' @ js ''credit balance is too low'')"
    by simp
  then have b: "fst (validateApiKey (stub_platform (Inr ?bad)) (JStr (js ''anthropic'')) (js ''sk-test''))
     = failure (js ''Invalid Anthropic API key: credit balance is too low'')"
    by (simp add: js_append)
  from a b show ?thesis by (rule conjI)
qed

text \<open>
  C8 as stated fails on a non-2xx response whose body does not parse:
  \<open>response.json()\<close> throws and the message is the \<open>catch\<close> block's, not
  \<open>Invalid Anthropic API key: ...\<close>.
\<close>

theorem anthropic_validation_counterexample:
  "validateApiKey
     (stub_platform (Inr \<lparr>ok = False,
        json = Inl (ErrorObject (js ''Unexpected token < in JSON at position 0''))\<rparr>))
     (JStr (js ''anthropic'')) (js ''sk-test'')
   = (failure (js ''Error validating API key: Unexpected token < in JSON at position 0''),
      [anthropic_probe_request (js ''sk-test'')])"
  by (simp add: validateApiKey_form not_blank_sk_test validation_reply_simps error_reply_simps
      thrown_detail_def js_append)

subsection \<open>C10: the shape of the results\<close>

text \<open>
  C10, as amended. Whenever a result has \<open>success = false\<close>, its \<open>message\<close> is a
  non-empty string and it has no \<open>data\<close>. Whenever \<open>validateApiKey\<close> returns
  \<open>success = true\<close>, its \<open>message\<close> is one of the three non-empty status strings and it
  has no \<open>data\<close>; it does so on every 2xx response to the validation request. Whenever
  \<open>sendPromptToLLM\<close> returns \<open>success = true\<close>, the result has no \<open>message\<close> and its
  \<open>data\<close> is the value that the provider's property chain read from the decoded body
  of the 2xx response. For a body that holds the objects and arrays of the chain, that
  value is the last property when the body has it, and \<open>undefined\<close> when the last
  property is missing: \<open>data\<close> is then \<open>undefined\<close> although \<open>success\<close> is true.
\<close>

theorem result_shape:
  "(\<not> success (fst (validateApiKey w provider apiKey)) \<longrightarrow>
      (\<exists>m. message (fst (validateApiKey w provider apiKey)) = Some m \<and> m \<noteq> [])
      \<and> data (fst (validateApiKey w provider apiKey)) = None)
   \<and> (success (fst (validateApiKey w provider apiKey)) \<longrightarrow>
      (\<exists>m. message (fst (validateApiKey w provider apiKey)) = Some m \<and> m \<noteq> []
         \<and> m \<in> {js ''OpenAI API key is valid'', js ''Anthropic API key is valid'',
                js ''Gemini API key is valid''})
      \<and> data (fst (validateApiKey w provider apiKey)) = None)
   \<and> (\<forall>resp. \<not> whitespace_only apiKey \<and> provider = JStr (js ''openai'')
         \<and> fetch w (openai_models_request apiKey) = Inr resp \<and> ok resp \<longrightarrow>
       fst (validateApiKey w provider apiKey)
         = \<lparr>success = True, message = Some (js ''OpenAI API key is valid''), data = None\<rparr>)
   \<and> (\<forall>resp. \<not> whitespace_only apiKey \<and> provider = JStr (js ''anthropic'')
         \<and> fetch w (anthropic_probe_request apiKey) = Inr resp \<and> ok resp \<longrightarrow>
       fst (validateApiKey w provider apiKey)
         = \<lparr>success = True, message = Some (js ''Anthropic API key is valid''), data = None\<rparr>)
   \<and> (\<forall>resp. \<not> whitespace_only apiKey \<and> provider = JStr (js ''gemini'')
         \<and> fetch w (gemini_models_request apiKey) = Inr resp \<and> ok resp \<longrightarrow>
       fst (validateApiKey w provider apiKey)
         = \<lparr>success = True, message = Some (js ''Gemini API key is valid''), data = None\<rparr>)
   \<and> (\<not> success (fst (sendPromptToLLM w provider model apiKey prompt)) \<longrightarrow>
      (\<exists>m. message (fst (sendPromptToLLM w provider model apiKey prompt)) = Some m \<and> m \<noteq> [])
      \<and> data (fst (sendPromptToLLM w provider model apiKey prompt)) = None)
   \<and> (success (fst (sendPromptToLLM w provider model apiKey prompt)) \<longrightarrow>
      message (fst (sendPromptToLLM w provider model apiKey prompt)) = None
      \<and> (\<exists>req resp v x. snd (sendPromptToLLM w provider model apiKey prompt) = [req]
            \<and> fetch w req = Inr resp \<and> ok resp \<and> json resp = Inr v
            \<and> data (fst (sendPromptToLLM w provider model apiKey prompt)) = Some x
            \<and> (provider = JStr (js ''openai'') \<and> openai_text w v = Inr x
               \<or> provider = JStr (js ''anthropic'') \<and> anthropic_text w v = Inr x
               \<or> provider = JStr (js ''gemini'') \<and> gemini_text w v = Inr x)))
   \<and> (\<forall>resp ps qs rest ms.
         \<not> whitespace_only apiKey \<and> \<not> whitespace_only prompt
         \<and> provider = JStr (js ''openai'')
         \<and> fetch w (openai_chat_request model apiKey prompt) = Inr resp \<and> ok resp
         \<and> json resp = Inr (JObj ps)
         \<and> map_of ps (js ''choices'') = Some (JArr (JObj qs # rest))
         \<and> map_of qs (js ''message'') = Some (JObj ms) \<longrightarrow>
       fst (sendPromptToLLM w provider model apiKey prompt)
         = \<lparr>success = True, message = None,
            data = Some (case map_of ms (js ''content'') of Some x \<Rightarrow> x | None \<Rightarrow> JUndefined)\<rparr>)
   \<and> (\<forall>resp ps qs rest.
         \<not> whitespace_only apiKey \<and> \<not> whitespace_only prompt
         \<and> provider = JStr (js ''anthropic'')
         \<and> fetch w (anthropic_messages_request model apiKey prompt) = Inr resp \<and> ok resp
         \<and> json resp = Inr (JObj ps)
         \<and> map_of ps (js ''content'') = Some (JArr (JObj qs # rest)) \<longrightarrow>
       fst (sendPromptToLLM w provider model apiKey prompt)
         = \<lparr>success = True, message = None,
            data = Some (case map_of qs (js ''text'') of Some x \<Rightarrow> x | None \<Rightarrow> JUndefined)\<rparr>)
   \<and> (\<forall>resp ps qs rest cs ts others.
         \<not> whitespace_only apiKey \<and> \<not> whitespace_only prompt
         \<and> provider = JStr (js ''gemini'')
         \<and> fetch w (gemini_generate_request model apiKey prompt) = Inr resp \<and> ok resp
         \<and> json resp = Inr (JObj ps)
         \<and> map_of ps (js ''candidates'') = Some (JArr (JObj qs # rest))
         \<and> map_of qs (js ''content'') = Some (JObj cs)
         \<and> map_of cs (js ''parts'') = Some (JArr (JObj ts # others)) \<longrightarrow>
       fst (sendPromptToLLM w provider model apiKey prompt)
         = \<lparr>success = True, message = None,
            data = Some (case map_of ts (js ''text'') of Some x \<Rightarrow> x | None \<Rightarrow> JUndefined)\<rparr>)"
proof -
  let ?rv = "fst (validateApiKey w provider apiKey)"
  let ?rs = "fst (sendPromptToLLM w provider model apiKey prompt)"
  note v = validateApiKey_shape [of w provider apiKey]
  note s = sendPromptToLLM_shape [of w provider model apiKey prompt]
  have c1: "\<not> success ?rv \<longrightarrow> (\<exists>m. message ?rv = Some m \<and> m \<noteq> []) \<and> data ?rv = None"
    using v by blast
  have c2: "success ?rv \<longrightarrow>
      (\<exists>m. message ?rv = Some m \<and> m \<noteq> []
         \<and> m \<in> {js ''OpenAI API key is valid'', js ''Anthropic API key is valid'',
                js ''Gemini API key is valid''})
      \<and> data ?rv = None"
  proof
    assume h: "success ?rv"
    from v have "data ?rv = None" by (rule conjunct2)
    with validateApiKey_status [OF h] show "(\<exists>m. message ?rv = Some m \<and> m \<noteq> []
         \<and> m \<in> {js ''OpenAI API key is valid'', js ''Anthropic API key is valid'',
                js ''Gemini API key is valid''})
      \<and> data ?rv = None"
      by (rule conjI)
  qed
  have c3: "\<forall>resp. \<not> whitespace_only apiKey \<and> provider = JStr (js ''openai'')
         \<and> fetch w (openai_models_request apiKey) = Inr resp \<and> ok resp \<longrightarrow>
       ?rv = \<lparr>success = True, message = Some (js ''OpenAI API key is valid''), data = None\<rparr>"
    by (simp add: validateApiKey_form validation_reply_simps)
  have c4: "\<forall>resp. \<not> whitespace_only apiKey \<and> provider = JStr (js ''anthropic'')
         \<and> fetch w (anthropic_probe_request apiKey) = Inr resp \<and> ok resp \<longrightarrow>
       ?rv = \<lparr>success = True, message = Some (js ''Anthropic API key is valid''), data = None\<rparr>"
    by (simp add: validateApiKey_form validation_reply_simps)
  have c5: "\<forall>resp. \<not> whitespace_only apiKey \<and> provider = JStr (js ''gemini'')
         \<and> fetch w (gemini_models_request apiKey) = Inr resp \<and> ok resp \<longrightarrow>
       ?rv = \<lparr>success = True, message = Some (js ''Gemini API key is valid''), data = None\<rparr>"
    by (simp add: validateApiKey_form validation_reply_simps)
  have c6: "\<not> success ?rs \<longrightarrow> (\<exists>m. message ?rs = Some m \<and> m \<noteq> []) \<and> data ?rs = None"
    using s by blast
  have c7: "success ?rs \<longrightarrow>
      message ?rs = None
      \<and> (\<exists>req resp v x. snd (sendPromptToLLM w provider model apiKey prompt) = [req]
            \<and> fetch w req = Inr resp \<and> ok resp \<and> json resp = Inr v
            \<and> data ?rs = Some x
            \<and> (provider = JStr (js ''openai'') \<and> openai_text w v = Inr x
               \<or> provider = JStr (js ''anthropic'') \<and> anthropic_text w v = Inr x
               \<or> provider = JStr (js ''gemini'') \<and> gemini_text w v = Inr x))"
  proof
    assume h: "success ?rs"
    with s have "message ?rs = None" by simp
    with sendPromptToLLM_success [OF h] show "message ?rs = None
      \<and> (\<exists>req resp v x. snd (sendPromptToLLM w provider model apiKey prompt) = [req]
            \<and> fetch w req = Inr resp \<and> ok resp \<and> json resp = Inr v
            \<and> data ?rs = Some x
            \<and> (provider = JStr (js ''openai'') \<and> openai_text w v = Inr x
               \<or> provider = JStr (js ''anthropic'') \<and> anthropic_text w v = Inr x
               \<or> provider = JStr (js ''gemini'') \<and> gemini_text w v = Inr x))"
      by (rule conjI [rotated])
  qed
  have c8: "\<forall>resp ps qs rest ms.
         \<not> whitespace_only apiKey \<and> \<not> whitespace_only prompt
         \<and> provider = JStr (js ''openai'')
         \<and> fetch w (openai_chat_request model apiKey prompt) = Inr resp \<and> ok resp
         \<and> json resp = Inr (JObj ps)
         \<and> map_of ps (js ''choices'') = Some (JArr (JObj qs # rest))
         \<and> map_of qs (js ''message'') = Some (JObj ms) \<longrightarrow>
       ?rs = \<lparr>success = True, message = None,
            data = Some (case map_of ms (js ''content'') of Some x \<Rightarrow> x | None \<Rightarrow> JUndefined)\<rparr>"
    by (simp add: sendPromptToLLM_form generation_reply_simps openai_text_def
        get_member_def get_first_def)
  have c9: "\<forall>resp ps qs rest.
         \<not> whitespace_only apiKey \<and> \<not> whitespace_only prompt
         \<and> provider = JStr (js ''anthropic'')
         \<and> fetch w (anthropic_messages_request model apiKey prompt) = Inr resp \<and> ok resp
         \<and> json resp = Inr (JObj ps)
         \<and> map_of ps (js ''content'') = Some (JArr (JObj qs # rest)) \<longrightarrow>
       ?rs = \<lparr>success = True, message = None,
            data = Some (case map_of qs (js ''text'') of Some x \<Rightarrow> x | None \<Rightarrow> JUndefined)\<rparr>"
    by (simp add: sendPromptToLLM_form generation_reply_simps anthropic_text_def
        get_member_def get_first_def)
  have c10: "\<forall>resp ps qs rest cs ts others.
         \<not> whitespace_only apiKey \<and> \<not> whitespace_only prompt
         \<and> provider = JStr (js ''gemini'')
         \<and> fetch w (gemini_generate_request model apiKey prompt) = Inr resp \<and> ok resp
         \<and> json resp = Inr (JObj ps)
         \<and> map_of ps (js ''candidates'') = Some (JArr (JObj qs # rest))
         \<and> map_of qs (js ''content'') = Some (JObj cs)
         \<and> map_of cs (js ''parts'') = Some (JArr (JObj ts # others)) \<longrightarrow>
       ?rs = \<lparr>success = True, message = None,
            data = Some (case map_of ts (js ''text'') of Some x \<Rightarrow> x | None \<Rightarrow> JUndefined)\<rparr>"
    by (simp add: sendPromptToLLM_form generation_reply_simps gemini_text_def
        get_member_def get_first_def)
  show ?thesis
    by (intro conjI) (rule c1 c2 c3 c4 c5 c6 c7 c8 c9 c10)+
qed

theorem result_shape_witness:
  "fst (validateApiKey (stub_platform (Inr \<lparr>ok = True, json = Inl NonError\<rparr>))
          (JStr (js ''gemini'')) (js ''sk-test''))
     = \<lparr>success = True, message = Some (js ''Gemini API key is valid''), data = None\<rparr>
   \<and> \<not> success (fst (validateApiKey (stub_platform (Inl NonError))
          (JStr (js ''gemini'')) (js ''sk-test'')))
   \<and> (\<exists>m. message (fst (validateApiKey (stub_platform (Inl NonError))
          (JStr (js ''gemini'')) (js ''sk-test''))) = Some m \<and> m \<noteq> [])
   \<and> data (fst (validateApiKey (stub_platform (Inl NonError))
          (JStr (js ''gemini'')) (js ''sk-test''))) = None
   \<and> fst (sendPromptToLLM
          (stub_platform (Inr \<lparr>ok = True, json = Inr (JObj [(js ''content'',
             JArr [JObj [(js ''type'', JStr (js ''text'')), (js ''text'', JStr (js ''Hi!''))]])])\<rparr>))
          (JStr (js ''anthropic'')) (js ''claude-3-opus'') (js ''sk-test'') (js ''Hello''))
     = \<lparr>success = True, message = None, data = Some (JStr (js ''Hi!''))\<rparr>
   \<and> fst (sendPromptToLLM
          (stub_platform (Inr \<lparr>ok = True, json = Inr (JObj [(js ''choices'',
             JArr [JObj [(js ''message'', JObj [(js ''role'', JStr (js ''assistant''))])]])])\<rparr>))
          (JStr (js ''openai'')) (js ''gpt-4o'') (js ''sk-test'') (js ''Hello''))
     = \<lparr>success = True, message = None, data = Some JUndefined\<rparr>
   \<and> \<not> success (fst (sendPromptToLLM (stub_platform (Inl NonError))
          (JStr (js ''anthropic'')) (js ''claude-3-opus'') (js ''sk-test'') (js ''Hello'')))
   \<and> (\<exists>m. message (fst (sendPromptToLLM (stub_platform (Inl NonError))
          (JStr (js ''anthropic'')) (js ''claude-3-opus'') (js ''sk-test'') (js ''Hello''))) = Some m
          \<and> m \<noteq> [])
   \<and> data (fst (sendPromptToLLM (stub_platform (Inl NonError))
          (JStr (js ''anthropic'')) (js ''claude-3-opus'') (js ''sk-test'') (js ''Hello''))) = None"
proof -
  let ?good = "\<lparr>ok = True, json = Inl NonError\<rparr>"
  let ?abody = "JObj [(js ''content'',
             JArr [JObj [(js ''type'', JStr (js ''text'')), (js ''text'', JStr (js ''Hi!''))]])]"
  let ?obody = "JObj [(js ''choices'',
             JArr [JObj [(js ''message'', JObj [(js ''role'', JStr (js ''assistant''))])]])]"
  let ?w1 = "stub_platform (Inr ?good)"
  let ?w2 = "stub_platform (Inl NonError)"
  let ?w3 = "stub_platform (Inr \<lparr>ok = True, json = Inr ?abody\<rparr>)"
  let ?w4 = "stub_platform (Inr \<lparr>ok = True, json = Inr ?obody\<rparr>)"
  let ?r2 = "fst (validateApiKey ?w2 (JStr (js ''gemini'')) (js ''sk-test''))"
  let ?r5 = "fst (sendPromptToLLM ?w2 (JStr (js ''anthropic'')) (js ''claude-3-opus'')
                (js ''sk-test'') (js ''Hello''))"
  have s2: "\<not> success ?r2"
    by (simp add: validateApiKey_form not_blank_sk_test)
  have s5: "\<not> success ?r5"
    by (simp add: sendPromptToLLM_form not_blank_sk_test not_blank_Hello)
  from result_shape [where w = ?w1 and provider = "JStr (js ''gemini'')"
      and apiKey = "js ''sk-test''" and model = "js ''gemini-pro''" and prompt = "js ''Hello''"]
  have "\<forall>resp. \<not> whitespace_only (js ''sk-test'') \<and> JStr (js ''gemini'') = JStr (js ''gemini'')
         \<and> fetch ?w1 (gemini_models_request (js ''sk-test'')) = Inr resp \<and> ok resp \<longrightarrow>
       fst (validateApiKey ?w1 (JStr (js ''gemini'')) (js ''sk-test''))
         = \<lparr>success = True, message = Some (js ''Gemini API key is valid''), data = None\<rparr>"
    by (elim conjE)
  then have p1: "fst (validateApiKey ?w1 (JStr (js ''gemini'')) (js ''sk-test''))
     = \<lparr>success = True, message = Some (js ''Gemini API key is valid''), data = None\<rparr>"
    using not_blank_sk_test by simp
  from result_shape [where w = ?w2 and provider = "JStr (js ''gemini'')"
      and apiKey = "js ''sk-test''" and model = "js ''gemini-pro''" and prompt = "js ''Hello''"]
  have "\<not> success ?r2 \<longrightarrow> (\<exists>m. message ?r2 = Some m \<and> m \<noteq> []) \<and> data ?r2 = None"
    by (elim conjE)
  with s2 have p2: "(\<exists>m. message ?r2 = Some m \<and> m \<noteq> []) \<and> data ?r2 = None"
    by (rule rev_mp)
  from result_shape [where w = ?w3 and provider = "JStr (js ''anthropic'')"
      and apiKey = "js ''sk-test''" and model = "js ''claude-3-opus''" and prompt = "js ''Hello''"]
  have "\<forall>resp ps qs rest.
         \<not> whitespace_only (js ''sk-test'') \<and> \<not> whitespace_only (js ''Hello'')
         \<and> JStr (js ''anthropic'') = JStr (js ''anthropic'')
         \<and> fetch ?w3 (anthropic_messages_request (js ''claude-3-opus'') (js ''sk-test'')
               (js ''Hello'')) = Inr resp \<and> ok resp
         \<and> json resp = Inr (JObj ps)
         \<and> map_of ps (js ''content'') = Some (JArr (JObj qs # rest)) \<longrightarrow>
       fst (sendPromptToLLM ?w3 (JStr (js ''anthropic'')) (js ''claude-3-opus'')
             (js ''sk-test'') (js ''Hello''))
         = \<lparr>success = True, message = None,
            data = Some (case map_of qs (js ''text'') of Some x \<Rightarrow> x | None \<Rightarrow> JUndefined)\<rparr>"
    by (elim conjE)
  then have p3: "fst (sendPromptToLLM ?w3 (JStr (js ''anthropic'')) (js ''claude-3-opus'')
                (js ''sk-test'') (js ''Hello''))
     = \<lparr>success = True, message = None, data = Some (JStr (js ''Hi!''))\<rparr>"
    using not_blank_sk_test not_blank_Hello by simp
  from result_shape [where w = ?w4 and provider = "JStr (js ''openai'')"
      and apiKey = "js ''sk-test''" and model = "js ''gpt-4o''" and prompt = "js ''Hello''"]
  have "\<forall>resp ps qs rest ms.
         \<not> whitespace_only (js ''sk-test'') \<and> \<not> whitespace_only (js ''Hello'')
         \<and> JStr (js ''openai'') = JStr (js ''openai'')
         \<and> fetch ?w4 (openai_chat_request (js ''gpt-4o'') (js ''sk-test'') (js ''Hello''))
               = Inr resp \<and> ok resp
         \<and> json resp = Inr (JObj ps)
         \<and> map_of ps (js ''choices'') = Some (JArr (JObj qs # rest))
         \<and> map_of qs (js ''message'') = Some (JObj ms) \<longrightarrow>
       fst (sendPromptToLLM ?w4 (JStr (js ''openai'')) (js ''gpt-4o'') (js ''sk-test'') (js ''Hello''))
         = \<lparr>success = True, message = None,
            data = Some (case map_of ms (js ''content'') of Some x \<Rightarrow> x | None \<Rightarrow> JUndefined)\<rparr>"
    by (elim conjE)
  then have p4: "fst (sendPromptToLLM ?w4 (JStr (js ''openai'')) (js ''gpt-4o'')
                (js ''sk-test'') (js ''Hello''))
     = \<lparr>success = True, message = None, data = Some JUndefined\<rparr>"
    using not_blank_sk_test not_blank_Hello by simp
  from result_shape [where w = ?w2 and provider = "JStr (js ''anthropic'')"
      and apiKey = "js ''sk-test''" and model = "js ''claude-3-opus''" and prompt = "js ''Hello''"]
  have "\<not> success ?r5 \<longrightarrow> (\<exists>m. message ?r5 = Some m \<and> m \<noteq> []) \<and> data ?r5 = None"
    by (elim conjE)
  with s5 have p5: "(\<exists>m. message ?r5 = Some m \<and> m \<noteq> []) \<and> data ?r5 = None"
    by (rule rev_mp)
  from p2 have p2a: "\<exists>m. message ?r2 = Some m \<and> m \<noteq> []" and p2b: "data ?r2 = None"
    by (rule conjunct1, rule conjunct2)
  from p5 have p5a: "\<exists>m. message ?r5 = Some m \<and> m \<noteq> []" and p5b: "data ?r5 = None"
    by (rule conjunct1, rule conjunct2)
  show ?thesis
    by (intro conjI) (rule p1 s2 p2a p2b p3 p4 s5 p5a p5b)+
qed

text \<open>
  C10 as stated fails on a 2xx response to the Anthropic request with the body
  \<open>{"content":"hello"}\<close>: \<open>data.content[0]\<close> is the string \<open>h\<close>, which has no property
  \<open>text\<close>, so the result is \<open>{success: true, data: undefined}\<close> and holds no extracted
  text.
\<close>

theorem result_shape_counterexample:
  "fst (sendPromptToLLM
         (stub_platform (Inr \<lparr>ok = True,
            json = Inr (JObj [(js ''content'', JStr (js ''hello''))])\<rparr>))
         (JStr (js ''anthropic'')) (js ''claude-3-opus'') (js ''sk-test'') (js ''Hello''))
   = \<lparr>success = True, message = None, data = Some JUndefined\<rparr>"
proof -
  let ?body = "JObj [(js ''content'', JStr (js ''hello''))]"
  let ?w = "stub_platform (Inr \<lparr>ok = True, json = Inr ?body\<rparr>)"
  have "get_first ?w (JStr (js ''hello'')) = Inr (JStr [hd (js ''hello'')])"
    by (rule get_first_string) simp
  then have t: "anthropic_text ?w ?body = Inr JUndefined"
    by (simp add: anthropic_text_def get_member_def)
  show ?thesis
    by (simp add: sendPromptToLLM_form not_blank_sk_test not_blank_Hello generation_reply_simps t)
qed

end
